theory Spec2Isabelle
  imports Main "HOL-Library.Word"
begin

unbundle bit_operations_syntax

section \<open>The privileged-hardware system calls of \<open>kernel/syscalls/syscalls_ddk.cpp\<close>\<close>

text \<open>
  The file \<open>syscalls_ddk.cpp\<close> holds the entry routines only. Everything they act on
  (the resource validator, the handle table of the calling process, the interrupt and
  VM-object dispatchers, the page allocator behind \<open>VmObjectPaged\<close>, the display driver
  and the IO-permission bitmap) lives in other files. The embedding therefore has two
  layers:

  \<^item> the entry routines, translated statement by statement;
  \<^item> the collaborators, taken as a parameter: a record \<open>env\<close> of functions over a
    kernel state of an arbitrary type \<open>'k\<close>. A collaborator that changes the kernel
    returns the new kernel state; a collaborator that only looks something up
    (the validator, a handle-table lookup, the handle-to-value mapping, the address
    translation) is a function of the kernel state.

  Every call of a collaborator is also appended to a trace, with its arguments and its
  result, so that the order of the calls and the absence of a call can be stated.
\<close>

subsection \<open>Scalar types and constants\<close>

type_synonym zx_status_t = "32 word"
type_synonym zx_handle_t = "32 word"
type_synonym zx_rights_t = "32 word"
type_synonym zx_time_t = "64 word"
type_synonym size_t = "64 word"
type_synonym paddr_t = "64 word"

text \<open>
  A user pointer is an address; the null pointer is 0 (the test \<open>if (out_slots)\<close> of the
  source is \<open>out_slots \<noteq> 0\<close>).
\<close>

type_synonym user_ptr = "64 word"

text \<open>
  The status codes are those of \<open>zircon/errors.h\<close>, which is not among the sources of
  this file. The routines only compare a status with \<open>ZX_OK\<close> and with 0, so the
  theorems below depend on the sign of the codes and on their being different.
\<close>

definition ZX_OK :: zx_status_t where "ZX_OK = 0"
definition ZX_ERR_NOT_SUPPORTED :: zx_status_t where "ZX_ERR_NOT_SUPPORTED = - 2"
definition ZX_ERR_NO_MEMORY :: zx_status_t where "ZX_ERR_NO_MEMORY = - 4"
definition ZX_ERR_INVALID_ARGS :: zx_status_t where "ZX_ERR_INVALID_ARGS = - 10"
definition ZX_ERR_BAD_HANDLE :: zx_status_t where "ZX_ERR_BAD_HANDLE = - 11"
definition ZX_ERR_WRONG_TYPE :: zx_status_t where "ZX_ERR_WRONG_TYPE = - 12"
definition ZX_ERR_OUT_OF_RANGE :: zx_status_t where "ZX_ERR_OUT_OF_RANGE = - 14"
definition ZX_ERR_ACCESS_DENIED :: zx_status_t where "ZX_ERR_ACCESS_DENIED = - 30"

text \<open>The resource kinds (spec section 3); the routines only ever ask for \<open>ROOT\<close>.\<close>

datatype rsrc_kind =
    ZX_RSRC_KIND_MMIO
  | ZX_RSRC_KIND_IRQ
  | ZX_RSRC_KIND_IOPORT
  | ZX_RSRC_KIND_ROOT

datatype pmm_alloc_flag = PMM_ALLOC_FLAG_ANY

datatype display_flag = DISPLAY_FLAG_HW_FRAMEBUFFER

text \<open>
  \<open>struct display_info\<close> as the routines fill it: \<open>memset\<close> to zero, then the four
  geometry fields and the flags.
\<close>

record display_info =
  di_format :: "32 word"
  di_width :: "32 word"
  di_height :: "32 word"
  di_stride :: "32 word"
  di_flags :: display_flag

subsection \<open>The platform\<close>

text \<open>
  What is fixed when the kernel is built or booted: the architecture switch
  \<open>ARCH_X86\<close>, the page-size shift, and the \<open>bootloader\<close> structure that the x86
  platform code fills from the boot data.
\<close>

record bootloader_fb =
  fb_base :: "64 word"
  fb_format :: "32 word"
  fb_width :: "32 word"
  fb_height :: "32 word"
  fb_stride :: "32 word"

record bootloader_info =
  fb :: bootloader_fb
  acpi_rsdp :: "64 word"

record platform =
  ARCH_X86 :: bool
  PAGE_SIZE_SHIFT :: "32 word"
  bootloader :: bootloader_info

definition PAGE_SIZE :: "platform \<Rightarrow> size_t" where
  "PAGE_SIZE p = push_bit (unat (PAGE_SIZE_SHIFT p)) 1"

text \<open>
  \<open>ROUNDUP_PAGE_SIZE(x)\<close> is \<open>ROUNDUP(x, PAGE_SIZE)\<close>, that is
  \<open>((x + (PAGE_SIZE - 1)) & ~(PAGE_SIZE - 1))\<close> on \<open>size_t\<close>: the addition wraps
  around at 64 bits.
\<close>

definition ROUNDUP_PAGE_SIZE :: "platform \<Rightarrow> size_t \<Rightarrow> size_t" where
  "ROUNDUP_PAGE_SIZE p x = (x + (PAGE_SIZE p - 1)) AND NOT (PAGE_SIZE p - 1)"

subsection \<open>Kernel objects as seen from the entry routines\<close>

text \<open>
  The routines hold kernel objects only through references (\<open>fbl::RefPtr\<close>,
  \<open>HandleOwner\<close>); a reference is modelled by the identity of the object.
  \<open>Handle::Make\<close> may return a null \<open>HandleOwner\<close>, hence the option.
\<close>

type_synonym dispatcher_ref = nat
type_synonym vmo_ref = nat
type_synonym handle_ref = nat

datatype dispatcher_type = InterruptDispatcher | VmObjectDispatcher

datatype user_value = U32 "32 word" | U64 "64 word"

subsection \<open>The collaborators\<close>

record 'k env =
  validate_resource :: "zx_handle_t \<Rightarrow> rsrc_kind \<Rightarrow> 'k \<Rightarrow> zx_status_t"
  validate_resource_mmio :: "zx_handle_t \<Rightarrow> paddr_t \<Rightarrow> size_t \<Rightarrow> 'k \<Rightarrow> zx_status_t"
  GetDispatcher :: "dispatcher_type \<Rightarrow> zx_handle_t \<Rightarrow> 'k \<Rightarrow> zx_status_t \<times> dispatcher_ref"
  MapHandleToValue :: "handle_ref option \<Rightarrow> 'k \<Rightarrow> zx_handle_t"
  vaddr_to_paddr :: "user_ptr \<Rightarrow> 'k \<Rightarrow> paddr_t"
  dispatcher_vmo :: "dispatcher_ref \<Rightarrow> 'k \<Rightarrow> vmo_ref"
  InterruptEventDispatcher_Create :: "'k \<Rightarrow> (zx_status_t \<times> dispatcher_ref \<times> zx_rights_t) \<times> 'k"
  Handle_Make :: "dispatcher_ref \<Rightarrow> zx_rights_t \<Rightarrow> 'k \<Rightarrow> handle_ref option \<times> 'k"
  Handle_Delete :: "handle_ref \<Rightarrow> 'k \<Rightarrow> 'k"
  AddHandle :: "handle_ref option \<Rightarrow> 'k \<Rightarrow> 'k"
  copy_to_user :: "user_ptr \<Rightarrow> user_value \<Rightarrow> 'k \<Rightarrow> zx_status_t \<times> 'k"
  Bind :: "dispatcher_ref \<Rightarrow> 32 word \<Rightarrow> 32 word \<Rightarrow> 32 word \<Rightarrow> 'k \<Rightarrow> zx_status_t \<times> 'k"
  Unbind :: "dispatcher_ref \<Rightarrow> 32 word \<Rightarrow> 'k \<Rightarrow> zx_status_t \<times> 'k"
  WaitForInterrupt :: "dispatcher_ref \<Rightarrow> 'k \<Rightarrow> ((zx_status_t \<times> 64 word) \<times> 'k) option"
  WaitForInterruptWithTimeStamp ::
    "dispatcher_ref \<Rightarrow> 'k \<Rightarrow> ((zx_status_t \<times> 32 word \<times> zx_time_t) \<times> 'k) option"
  UserSignal :: "dispatcher_ref \<Rightarrow> 32 word \<Rightarrow> zx_time_t \<Rightarrow> 'k \<Rightarrow> zx_status_t \<times> 'k"
  VmObjectPaged_Create :: "pmm_alloc_flag \<Rightarrow> size_t \<Rightarrow> 'k \<Rightarrow> (zx_status_t \<times> vmo_ref) \<times> 'k"
  CommitRangeContiguous ::
    "vmo_ref \<Rightarrow> 64 word \<Rightarrow> 64 word \<Rightarrow> 8 word \<Rightarrow> 'k \<Rightarrow> (zx_status_t \<times> 64 word) \<times> 'k"
  VmObject_Release :: "vmo_ref \<Rightarrow> 'k \<Rightarrow> 'k"
  VmObjectPhysical_Create :: "paddr_t \<Rightarrow> size_t \<Rightarrow> 'k \<Rightarrow> (zx_status_t \<times> vmo_ref) \<times> 'k"
  VmObjectDispatcher_Create ::
    "vmo_ref \<Rightarrow> 'k \<Rightarrow> (zx_status_t \<times> dispatcher_ref \<times> zx_rights_t) \<times> 'k"
  udisplay_set_framebuffer :: "paddr_t \<Rightarrow> 32 word \<Rightarrow> 'k \<Rightarrow> zx_status_t \<times> 'k"
  udisplay_set_framebuffer_vmo :: "vmo_ref \<Rightarrow> 'k \<Rightarrow> zx_status_t \<times> 'k"
  udisplay_set_display_info :: "display_info \<Rightarrow> 'k \<Rightarrow> 'k"
  SetIoBitmap :: "32 word \<Rightarrow> 32 word \<Rightarrow> bool \<Rightarrow> 'k \<Rightarrow> zx_status_t \<times> 'k"

text \<open>
  Two of the fields stand for destructors that the C++ runs when a local owner goes out
  of scope on an early return: \<open>VmObject_Release\<close> drops the reference that the local
  \<open>fbl::RefPtr<VmObject> vmo\<close> holds (the only reference to an object that was created
  in the same call and not yet handed on), and \<open>Handle_Delete\<close> is the deleter of the
  local \<open>HandleOwner\<close>, which runs when the owner is not null. The references that \<open>GetDispatcher\<close> hands out are dropped at
  the end of the call as well; the handle table still holds the object, so the lookup
  and its release together are the function \<open>GetDispatcher\<close> of the kernel state.

  \<open>WaitForInterrupt\<close> and \<open>WaitForInterruptWithTimeStamp\<close> block the calling thread;
  \<open>None\<close> is a wait that never returns.
\<close>

subsection \<open>The trace of collaborator calls\<close>

datatype event =
    EvValidateResource zx_handle_t rsrc_kind zx_status_t
  | EvValidateResourceMmio zx_handle_t paddr_t size_t zx_status_t
  | EvGetDispatcher dispatcher_type zx_handle_t zx_status_t
  | EvMapHandleToValue "handle_ref option"
  | EvVaddrToPaddr user_ptr
  | EvDispatcherVmo dispatcher_ref
  | EvInterruptEventDispatcherCreate zx_status_t
  | EvHandleMake dispatcher_ref zx_rights_t "handle_ref option"
  | EvHandleDelete handle_ref
  | EvAddHandle "handle_ref option"
  | EvCopyToUser user_ptr user_value zx_status_t
  | EvBind dispatcher_ref "32 word" "32 word" "32 word"
  | EvUnbind dispatcher_ref "32 word"
  | EvWaitForInterrupt dispatcher_ref
  | EvWaitForInterruptWithTimeStamp dispatcher_ref
  | EvUserSignal dispatcher_ref "32 word" zx_time_t
  | EvVmObjectPagedCreate pmm_alloc_flag size_t zx_status_t
  | EvCommitRangeContiguous vmo_ref "64 word" "64 word" "8 word" zx_status_t "64 word"
  | EvVmObjectRelease vmo_ref
  | EvVmObjectPhysicalCreate paddr_t size_t zx_status_t
  | EvVmObjectDispatcherCreate vmo_ref zx_status_t
  | EvUdisplaySetFramebuffer paddr_t "32 word"
  | EvUdisplaySetFramebufferVmo vmo_ref zx_status_t
  | EvUdisplaySetDisplayInfo display_info
  | EvSetIoBitmap "32 word" "32 word" bool

record 'k kstate =
  kern :: 'k
  trace :: "event list"

definition emit :: "event \<Rightarrow> 'k kstate \<Rightarrow> 'k kstate" where
  "emit e s = s\<lparr>trace := trace s @ [e]\<rparr>"

text \<open>A query: the kernel state stays, the call is logged.\<close>

definition query :: "('k \<Rightarrow> 'a) \<Rightarrow> ('a \<Rightarrow> event) \<Rightarrow> 'k kstate \<Rightarrow> 'a \<times> 'k kstate" where
  "query f ev s = (let r = f (kern s) in (r, emit (ev r) s))"

text \<open>A call that returns a value and a new kernel state.\<close>

definition invoke :: "('k \<Rightarrow> 'a \<times> 'k) \<Rightarrow> ('a \<Rightarrow> event) \<Rightarrow> 'k kstate \<Rightarrow> 'a \<times> 'k kstate" where
  "invoke f ev s = (case f (kern s) of (r, k') \<Rightarrow> (r, emit (ev r) (s\<lparr>kern := k'\<rparr>)))"

text \<open>A call for its effect only.\<close>

definition effect :: "('k \<Rightarrow> 'k) \<Rightarrow> event \<Rightarrow> 'k kstate \<Rightarrow> 'k kstate" where
  "effect f ev s = emit ev (s\<lparr>kern := f (kern s)\<rparr>)"

text \<open>A call that may block for ever.\<close>

definition blocking ::
  "('k \<Rightarrow> ('a \<times> 'k) option) \<Rightarrow> event \<Rightarrow> 'k kstate \<Rightarrow> ('a \<times> 'k kstate) option" where
  "blocking f ev s =
     (case f (kern s) of
        None \<Rightarrow> None
      | Some (r, k') \<Rightarrow> Some (r, emit ev (s\<lparr>kern := k'\<rparr>)))"

subsection \<open>The calls, logged\<close>

definition call_validate_resource ::
  "'k env \<Rightarrow> zx_handle_t \<Rightarrow> rsrc_kind \<Rightarrow> 'k kstate \<Rightarrow> zx_status_t \<times> 'k kstate" where
  "call_validate_resource env h kind =
     query (validate_resource env h kind) (EvValidateResource h kind)"

definition call_validate_resource_mmio ::
  "'k env \<Rightarrow> zx_handle_t \<Rightarrow> paddr_t \<Rightarrow> size_t \<Rightarrow> 'k kstate \<Rightarrow> zx_status_t \<times> 'k kstate" where
  "call_validate_resource_mmio env h base len =
     query (validate_resource_mmio env h base len) (EvValidateResourceMmio h base len)"

definition call_GetDispatcher ::
  "'k env \<Rightarrow> dispatcher_type \<Rightarrow> zx_handle_t \<Rightarrow> 'k kstate
     \<Rightarrow> (zx_status_t \<times> dispatcher_ref) \<times> 'k kstate" where
  "call_GetDispatcher env ty h =
     query (GetDispatcher env ty h) (\<lambda>(status, d). EvGetDispatcher ty h status)"

definition call_MapHandleToValue ::
  "'k env \<Rightarrow> handle_ref option \<Rightarrow> 'k kstate \<Rightarrow> zx_handle_t \<times> 'k kstate" where
  "call_MapHandleToValue env handle =
     query (MapHandleToValue env handle) (\<lambda>hv. EvMapHandleToValue handle)"

definition call_vaddr_to_paddr :: "'k env \<Rightarrow> user_ptr \<Rightarrow> 'k kstate \<Rightarrow> paddr_t \<times> 'k kstate" where
  "call_vaddr_to_paddr env va = query (vaddr_to_paddr env va) (\<lambda>pa. EvVaddrToPaddr va)"

definition call_dispatcher_vmo ::
  "'k env \<Rightarrow> dispatcher_ref \<Rightarrow> 'k kstate \<Rightarrow> vmo_ref \<times> 'k kstate" where
  "call_dispatcher_vmo env d = query (dispatcher_vmo env d) (\<lambda>v. EvDispatcherVmo d)"

definition call_InterruptEventDispatcher_Create ::
  "'k env \<Rightarrow> 'k kstate \<Rightarrow> (zx_status_t \<times> dispatcher_ref \<times> zx_rights_t) \<times> 'k kstate" where
  "call_InterruptEventDispatcher_Create env =
     invoke (InterruptEventDispatcher_Create env)
       (\<lambda>(result, d, rights). EvInterruptEventDispatcherCreate result)"

definition call_Handle_Make ::
  "'k env \<Rightarrow> dispatcher_ref \<Rightarrow> zx_rights_t \<Rightarrow> 'k kstate \<Rightarrow> handle_ref option \<times> 'k kstate" where
  "call_Handle_Make env d rights = invoke (Handle_Make env d rights) (EvHandleMake d rights)"

definition destroy_HandleOwner :: "'k env \<Rightarrow> handle_ref option \<Rightarrow> 'k kstate \<Rightarrow> 'k kstate" where
  "destroy_HandleOwner env handle s =
     (case handle of
        None \<Rightarrow> s
      | Some h \<Rightarrow> effect (Handle_Delete env h) (EvHandleDelete h) s)"

definition call_AddHandle :: "'k env \<Rightarrow> handle_ref option \<Rightarrow> 'k kstate \<Rightarrow> 'k kstate" where
  "call_AddHandle env handle = effect (AddHandle env handle) (EvAddHandle handle)"

definition call_copy_to_user ::
  "'k env \<Rightarrow> user_ptr \<Rightarrow> user_value \<Rightarrow> 'k kstate \<Rightarrow> zx_status_t \<times> 'k kstate" where
  "call_copy_to_user env ptr v = invoke (copy_to_user env ptr v) (EvCopyToUser ptr v)"

definition call_Bind ::
  "'k env \<Rightarrow> dispatcher_ref \<Rightarrow> 32 word \<Rightarrow> 32 word \<Rightarrow> 32 word \<Rightarrow> 'k kstate
     \<Rightarrow> zx_status_t \<times> 'k kstate" where
  "call_Bind env d slot vector options =
     invoke (Bind env d slot vector options) (\<lambda>status. EvBind d slot vector options)"

definition call_Unbind ::
  "'k env \<Rightarrow> dispatcher_ref \<Rightarrow> 32 word \<Rightarrow> 'k kstate \<Rightarrow> zx_status_t \<times> 'k kstate" where
  "call_Unbind env d slot = invoke (Unbind env d slot) (\<lambda>status. EvUnbind d slot)"

definition call_WaitForInterrupt ::
  "'k env \<Rightarrow> dispatcher_ref \<Rightarrow> 'k kstate \<Rightarrow> ((zx_status_t \<times> 64 word) \<times> 'k kstate) option" where
  "call_WaitForInterrupt env d = blocking (WaitForInterrupt env d) (EvWaitForInterrupt d)"

definition call_WaitForInterruptWithTimeStamp ::
  "'k env \<Rightarrow> dispatcher_ref \<Rightarrow> 'k kstate
     \<Rightarrow> ((zx_status_t \<times> 32 word \<times> zx_time_t) \<times> 'k kstate) option" where
  "call_WaitForInterruptWithTimeStamp env d =
     blocking (WaitForInterruptWithTimeStamp env d) (EvWaitForInterruptWithTimeStamp d)"

definition call_UserSignal ::
  "'k env \<Rightarrow> dispatcher_ref \<Rightarrow> 32 word \<Rightarrow> zx_time_t \<Rightarrow> 'k kstate \<Rightarrow> zx_status_t \<times> 'k kstate" where
  "call_UserSignal env d slot ts =
     invoke (UserSignal env d slot ts) (\<lambda>status. EvUserSignal d slot ts)"

definition call_VmObjectPaged_Create ::
  "'k env \<Rightarrow> pmm_alloc_flag \<Rightarrow> size_t \<Rightarrow> 'k kstate \<Rightarrow> (zx_status_t \<times> vmo_ref) \<times> 'k kstate" where
  "call_VmObjectPaged_Create env flags sz =
     invoke (VmObjectPaged_Create env flags sz)
       (\<lambda>(status, v). EvVmObjectPagedCreate flags sz status)"

definition call_CommitRangeContiguous ::
  "'k env \<Rightarrow> vmo_ref \<Rightarrow> 64 word \<Rightarrow> 64 word \<Rightarrow> 8 word \<Rightarrow> 'k kstate
     \<Rightarrow> (zx_status_t \<times> 64 word) \<times> 'k kstate" where
  "call_CommitRangeContiguous env v offset len align =
     invoke (CommitRangeContiguous env v offset len align)
       (\<lambda>(status, committed). EvCommitRangeContiguous v offset len align status committed)"

definition destroy_VmObject_RefPtr :: "'k env \<Rightarrow> vmo_ref \<Rightarrow> 'k kstate \<Rightarrow> 'k kstate" where
  "destroy_VmObject_RefPtr env v = effect (VmObject_Release env v) (EvVmObjectRelease v)"

definition call_VmObjectPhysical_Create ::
  "'k env \<Rightarrow> paddr_t \<Rightarrow> size_t \<Rightarrow> 'k kstate \<Rightarrow> (zx_status_t \<times> vmo_ref) \<times> 'k kstate" where
  "call_VmObjectPhysical_Create env pa sz =
     invoke (VmObjectPhysical_Create env pa sz)
       (\<lambda>(status, v). EvVmObjectPhysicalCreate pa sz status)"

definition call_VmObjectDispatcher_Create ::
  "'k env \<Rightarrow> vmo_ref \<Rightarrow> 'k kstate
     \<Rightarrow> (zx_status_t \<times> dispatcher_ref \<times> zx_rights_t) \<times> 'k kstate" where
  "call_VmObjectDispatcher_Create env v =
     invoke (VmObjectDispatcher_Create env v)
       (\<lambda>(result, d, rights). EvVmObjectDispatcherCreate v result)"

definition call_udisplay_set_framebuffer ::
  "'k env \<Rightarrow> paddr_t \<Rightarrow> 32 word \<Rightarrow> 'k kstate \<Rightarrow> zx_status_t \<times> 'k kstate" where
  "call_udisplay_set_framebuffer env pa len =
     invoke (udisplay_set_framebuffer env pa len) (\<lambda>status. EvUdisplaySetFramebuffer pa len)"

definition call_udisplay_set_framebuffer_vmo ::
  "'k env \<Rightarrow> vmo_ref \<Rightarrow> 'k kstate \<Rightarrow> zx_status_t \<times> 'k kstate" where
  "call_udisplay_set_framebuffer_vmo env v =
     invoke (udisplay_set_framebuffer_vmo env v) (EvUdisplaySetFramebufferVmo v)"

definition call_udisplay_set_display_info ::
  "'k env \<Rightarrow> display_info \<Rightarrow> 'k kstate \<Rightarrow> 'k kstate" where
  "call_udisplay_set_display_info env di =
     effect (udisplay_set_display_info env di) (EvUdisplaySetDisplayInfo di)"

definition call_SetIoBitmap ::
  "'k env \<Rightarrow> 32 word \<Rightarrow> 32 word \<Rightarrow> bool \<Rightarrow> 'k kstate \<Rightarrow> zx_status_t \<times> 'k kstate" where
  "call_SetIoBitmap env io_addr len enable =
     invoke (SetIoBitmap env io_addr len enable) (\<lambda>status. EvSetIoBitmap io_addr len enable)"

subsection \<open>The entry routines\<close>

text \<open>
  Each routine follows its source statement by statement: \<open>return\<close> is the value of the
  branch, a local that the source assigns again (\<open>status\<close>, \<open>size\<close>, \<open>alignment_log2\<close>)
  is bound again. \<open>status < 0\<close> compares a signed 32-bit value, hence \<open><s\<close>.
  The parameter \<open>size\<close> of the source is written \<open>sz\<close>.
\<close>

definition sys_interrupt_create ::
  "'k env \<Rightarrow> zx_handle_t \<Rightarrow> 32 word \<Rightarrow> user_ptr \<Rightarrow> 'k kstate \<Rightarrow> zx_status_t \<times> 'k kstate" where
  "sys_interrupt_create env hrsrc options out_handle s =
     (if options \<noteq> 0 then (ZX_ERR_INVALID_ARGS, s)
      else case call_validate_resource env hrsrc ZX_RSRC_KIND_ROOT s of (status, s) \<Rightarrow>
        if status <s 0 then (status, s)
        else case call_InterruptEventDispatcher_Create env s of ((result, dispatcher, rights), s) \<Rightarrow>
          if result \<noteq> ZX_OK then (result, s)
          else case call_Handle_Make env dispatcher rights s of (handle, s) \<Rightarrow>
            case call_MapHandleToValue env handle s of (hv, s) \<Rightarrow>
              case call_copy_to_user env out_handle (U32 hv) s of (status, s) \<Rightarrow>
                if status \<noteq> ZX_OK then (status, destroy_HandleOwner env handle s)
                else (ZX_OK, call_AddHandle env handle s))"

definition sys_interrupt_bind ::
  "'k env \<Rightarrow> zx_handle_t \<Rightarrow> 32 word \<Rightarrow> zx_handle_t \<Rightarrow> 32 word \<Rightarrow> 32 word \<Rightarrow> 'k kstate
     \<Rightarrow> zx_status_t \<times> 'k kstate" where
  "sys_interrupt_bind env handle slot hrsrc vector options s =
     (case call_validate_resource env hrsrc ZX_RSRC_KIND_ROOT s of (status, s) \<Rightarrow>
        if status <s 0 then (status, s)
        else case call_GetDispatcher env InterruptDispatcher handle s of ((status, interrupt), s) \<Rightarrow>
          if status \<noteq> ZX_OK then (status, s)
          else call_Bind env interrupt slot vector options s)"

definition sys_interrupt_unbind ::
  "'k env \<Rightarrow> zx_handle_t \<Rightarrow> 32 word \<Rightarrow> 'k kstate \<Rightarrow> zx_status_t \<times> 'k kstate" where
  "sys_interrupt_unbind env handle slot s =
     (case call_GetDispatcher env InterruptDispatcher handle s of ((status, interrupt), s) \<Rightarrow>
        if status \<noteq> ZX_OK then (status, s)
        else call_Unbind env interrupt slot s)"

definition sys_interrupt_complete ::
  "'k env \<Rightarrow> zx_handle_t \<Rightarrow> 'k kstate \<Rightarrow> zx_status_t \<times> 'k kstate" where
  "sys_interrupt_complete env handle_value s =
     (case call_GetDispatcher env InterruptDispatcher handle_value s of
        ((status, interrupt), s) \<Rightarrow> (status, s))"

definition sys_interrupt_wait ::
  "'k env \<Rightarrow> zx_handle_t \<Rightarrow> user_ptr \<Rightarrow> 'k kstate \<Rightarrow> (zx_status_t \<times> 'k kstate) option" where
  "sys_interrupt_wait env handle out_slots s =
     (case call_GetDispatcher env InterruptDispatcher handle s of ((status, interrupt), s) \<Rightarrow>
        if status \<noteq> ZX_OK then Some (status, s)
        else (case call_WaitForInterrupt env interrupt s of
            None \<Rightarrow> None
          | Some ((status, slots), s) \<Rightarrow>
              if status = ZX_OK \<and> out_slots \<noteq> 0
              then Some (call_copy_to_user env out_slots (U64 slots) s)
              else Some (status, s)))"

definition sys_interrupt_wait_with_timestamp ::
  "'k env \<Rightarrow> zx_handle_t \<Rightarrow> user_ptr \<Rightarrow> user_ptr \<Rightarrow> 'k kstate
     \<Rightarrow> (zx_status_t \<times> 'k kstate) option" where
  "sys_interrupt_wait_with_timestamp env handle out_slot out_timestamp s =
     (case call_GetDispatcher env InterruptDispatcher handle s of ((status, interrupt), s) \<Rightarrow>
        if status \<noteq> ZX_OK then Some (status, s)
        else (case call_WaitForInterruptWithTimeStamp env interrupt s of
            None \<Rightarrow> None
          | Some ((status, slot, timestamp), s) \<Rightarrow>
              (case (if status = ZX_OK \<and> out_slot \<noteq> 0
                     then call_copy_to_user env out_slot (U32 slot) s
                     else (status, s)) of (status, s) \<Rightarrow>
                 Some (if status = ZX_OK \<and> out_timestamp \<noteq> 0
                       then call_copy_to_user env out_timestamp (U64 timestamp) s
                       else (status, s)))))"

definition sys_interrupt_signal ::
  "'k env \<Rightarrow> zx_handle_t \<Rightarrow> 32 word \<Rightarrow> zx_time_t \<Rightarrow> 'k kstate \<Rightarrow> zx_status_t \<times> 'k kstate" where
  "sys_interrupt_signal env handle slot timestamp s =
     (case call_GetDispatcher env InterruptDispatcher handle s of ((status, interrupt), s) \<Rightarrow>
        if status \<noteq> ZX_OK then (status, s)
        else call_UserSignal env interrupt slot timestamp s)"

text \<open>
  The tail that \<open>sys_vmo_create_contiguous\<close> and \<open>sys_vmo_create_physical\<close> have in
  common, word for word, from \<open>// create a Vm Object dispatcher\<close> on.
\<close>

definition vmo_make_handle ::
  "'k env \<Rightarrow> vmo_ref \<Rightarrow> user_ptr \<Rightarrow> 'k kstate \<Rightarrow> zx_status_t \<times> 'k kstate" where
  "vmo_make_handle env vmo out s =
     (case call_VmObjectDispatcher_Create env vmo s of ((result, dispatcher, rights), s) \<Rightarrow>
        if result \<noteq> ZX_OK then (result, s)
        else case call_Handle_Make env dispatcher rights s of (handle, s) \<Rightarrow>
          if handle = None then (ZX_ERR_NO_MEMORY, s)
          else case call_MapHandleToValue env handle s of (hv, s) \<Rightarrow>
            case call_copy_to_user env out (U32 hv) s of (status, s) \<Rightarrow>
              if status \<noteq> ZX_OK then (status, destroy_HandleOwner env handle s)
              else (ZX_OK, call_AddHandle env handle s))"

definition sys_vmo_create_contiguous ::
  "platform \<Rightarrow> 'k env \<Rightarrow> zx_handle_t \<Rightarrow> size_t \<Rightarrow> 32 word \<Rightarrow> user_ptr \<Rightarrow> 'k kstate
     \<Rightarrow> zx_status_t \<times> 'k kstate" where
  "sys_vmo_create_contiguous p env hrsrc sz alignment_log2 out s =
     (if sz = 0 then (ZX_ERR_INVALID_ARGS, s)
      else
        let alignment_log2 = (if alignment_log2 = 0 then PAGE_SIZE_SHIFT p else alignment_log2)
        in
          if alignment_log2 < PAGE_SIZE_SHIFT p \<or> 64 \<le> alignment_log2
          then (ZX_ERR_INVALID_ARGS, s)
          else case call_validate_resource env hrsrc ZX_RSRC_KIND_ROOT s of (status, s) \<Rightarrow>
            if status <s 0 then (status, s)
            else
              let sz = ROUNDUP_PAGE_SIZE p sz
              in case call_VmObjectPaged_Create env PMM_ALLOC_FLAG_ANY sz s of
                ((status, vmo), s) \<Rightarrow>
                  if status \<noteq> ZX_OK then (status, s)
                  else
                    let align_log2_arg = (ucast alignment_log2 :: 8 word)
                    in case call_CommitRangeContiguous env vmo 0 sz align_log2_arg s of
                      ((status, committed), s) \<Rightarrow>
                        if status <s 0 \<or> committed < sz
                        then (ZX_ERR_NO_MEMORY, destroy_VmObject_RefPtr env vmo s)
                        else vmo_make_handle env vmo out s)"

definition sys_vmo_create_physical ::
  "platform \<Rightarrow> 'k env \<Rightarrow> zx_handle_t \<Rightarrow> paddr_t \<Rightarrow> size_t \<Rightarrow> user_ptr \<Rightarrow> 'k kstate
     \<Rightarrow> zx_status_t \<times> 'k kstate" where
  "sys_vmo_create_physical p env hrsrc paddr sz out s =
     (case call_validate_resource_mmio env hrsrc paddr sz s of (status, s) \<Rightarrow>
        if status <s 0 then (status, s)
        else
          let sz = ROUNDUP_PAGE_SIZE p sz
          in case call_VmObjectPhysical_Create env paddr sz s of ((result, vmo), s) \<Rightarrow>
            if result \<noteq> ZX_OK then (result, s)
            else vmo_make_handle env vmo out s)"

definition sys_bootloader_fb_get_info ::
  "platform \<Rightarrow> 'k env \<Rightarrow> user_ptr \<Rightarrow> user_ptr \<Rightarrow> user_ptr \<Rightarrow> user_ptr \<Rightarrow> 'k kstate
     \<Rightarrow> zx_status_t \<times> 'k kstate" where
  "sys_bootloader_fb_get_info p env format width height stride s =
     (if ARCH_X86 p then
        if fb_base (fb (bootloader p)) = 0 then (ZX_ERR_INVALID_ARGS, s)
        else case call_copy_to_user env format (U32 (fb_format (fb (bootloader p)))) s of
          (status, s) \<Rightarrow>
            if status \<noteq> ZX_OK then (status, s)
            else case call_copy_to_user env width (U32 (fb_width (fb (bootloader p)))) s of
              (status, s) \<Rightarrow>
                if status \<noteq> ZX_OK then (status, s)
                else case call_copy_to_user env height (U32 (fb_height (fb (bootloader p)))) s of
                  (status, s) \<Rightarrow>
                    if status \<noteq> ZX_OK then (status, s)
                    else case call_copy_to_user env stride
                                (U32 (fb_stride (fb (bootloader p)))) s of
                      (status, s) \<Rightarrow>
                        if status \<noteq> ZX_OK then (status, s)
                        else (ZX_OK, s)
      else (ZX_ERR_NOT_SUPPORTED, s))"

text \<open>The \<open>display_info\<close> that both framebuffer routines build.\<close>

definition make_display_info ::
  "32 word \<Rightarrow> 32 word \<Rightarrow> 32 word \<Rightarrow> 32 word \<Rightarrow> display_info" where
  "make_display_info format width height stride =
     \<lparr>di_format = format, di_width = width, di_height = height, di_stride = stride,
      di_flags = DISPLAY_FLAG_HW_FRAMEBUFFER\<rparr>"

definition sys_set_framebuffer ::
  "'k env \<Rightarrow> zx_handle_t \<Rightarrow> user_ptr \<Rightarrow> 32 word \<Rightarrow> 32 word \<Rightarrow> 32 word \<Rightarrow> 32 word \<Rightarrow> 32 word
     \<Rightarrow> 'k kstate \<Rightarrow> zx_status_t \<times> 'k kstate" where
  "sys_set_framebuffer env hrsrc vaddr len format width height stride s =
     (case call_validate_resource env hrsrc ZX_RSRC_KIND_ROOT s of (status, s) \<Rightarrow>
        if status <s 0 then (status, s)
        else case call_vaddr_to_paddr env vaddr s of (paddr, s) \<Rightarrow>
          case call_udisplay_set_framebuffer env paddr len s of (ignored, s) \<Rightarrow>
            (ZX_OK,
             call_udisplay_set_display_info env (make_display_info format width height stride) s))"

definition sys_set_framebuffer_vmo ::
  "'k env \<Rightarrow> zx_handle_t \<Rightarrow> zx_handle_t \<Rightarrow> 32 word \<Rightarrow> 32 word \<Rightarrow> 32 word \<Rightarrow> 32 word \<Rightarrow> 32 word
     \<Rightarrow> 'k kstate \<Rightarrow> zx_status_t \<times> 'k kstate" where
  "sys_set_framebuffer_vmo env hrsrc vmo_handle len format width height stride s =
     (case call_validate_resource env hrsrc ZX_RSRC_KIND_ROOT s of (status, s) \<Rightarrow>
        if status <s 0 then (status, s)
        else case call_GetDispatcher env VmObjectDispatcher vmo_handle s of ((status, vmo), s) \<Rightarrow>
          if status \<noteq> ZX_OK then (status, s)
          else case call_dispatcher_vmo env vmo s of (v, s) \<Rightarrow>
            case call_udisplay_set_framebuffer_vmo env v s of (status, s) \<Rightarrow>
              if status \<noteq> ZX_OK then (status, s)
              else
                (ZX_OK,
                 call_udisplay_set_display_info env
                   (make_display_info format width height stride) s))"

text \<open>
  \<open>sys_mmap_device_io\<close> has two bodies, chosen by \<open>#if ARCH_X86\<close>.
\<close>

definition sys_mmap_device_io ::
  "platform \<Rightarrow> 'k env \<Rightarrow> zx_handle_t \<Rightarrow> 32 word \<Rightarrow> 32 word \<Rightarrow> 'k kstate
     \<Rightarrow> zx_status_t \<times> 'k kstate" where
  "sys_mmap_device_io p env hrsrc io_addr len s =
     (if ARCH_X86 p then
        case call_validate_resource env hrsrc ZX_RSRC_KIND_ROOT s of (status, s) \<Rightarrow>
          if status <s 0 then (status, s)
          else call_SetIoBitmap env io_addr len True s
      else (ZX_ERR_NOT_SUPPORTED, s))"

text \<open>
  \<open>sys_acpi_uefi_rsdp\<close> returns \<open>uint64_t\<close>: \<open>return status\<close> converts the negative
  \<open>int32_t\<close> to 64 bits by sign extension.
\<close>

definition sys_acpi_uefi_rsdp ::
  "platform \<Rightarrow> 'k env \<Rightarrow> zx_handle_t \<Rightarrow> 'k kstate \<Rightarrow> 64 word \<times> 'k kstate" where
  "sys_acpi_uefi_rsdp p env hrsrc s =
     (case call_validate_resource env hrsrc ZX_RSRC_KIND_ROOT s of (status, s) \<Rightarrow>
        if status <s 0 then (scast status, s)
        else if ARCH_X86 p then (acpi_rsdp (bootloader p), s)
        else (0, s))"

subsection \<open>One call from user mode\<close>

text \<open>
  To speak about every routine of the file at once, a call is a value: the routine and
  its arguments. \<open>sys_acpi_uefi_rsdp\<close> returns a 64-bit value, the others a status;
  the two waits may never return.
\<close>

datatype syscall =
    Interrupt_create zx_handle_t "32 word" user_ptr
  | Interrupt_bind zx_handle_t "32 word" zx_handle_t "32 word" "32 word"
  | Interrupt_unbind zx_handle_t "32 word"
  | Interrupt_complete zx_handle_t
  | Interrupt_wait zx_handle_t user_ptr
  | Interrupt_wait_with_timestamp zx_handle_t user_ptr user_ptr
  | Interrupt_signal zx_handle_t "32 word" zx_time_t
  | Vmo_create_contiguous zx_handle_t size_t "32 word" user_ptr
  | Vmo_create_physical zx_handle_t paddr_t size_t user_ptr
  | Bootloader_fb_get_info user_ptr user_ptr user_ptr user_ptr
  | Set_framebuffer zx_handle_t user_ptr "32 word" "32 word" "32 word" "32 word" "32 word"
  | Set_framebuffer_vmo zx_handle_t zx_handle_t "32 word" "32 word" "32 word" "32 word" "32 word"
  | Mmap_device_io zx_handle_t "32 word" "32 word"
  | Acpi_uefi_rsdp zx_handle_t

datatype retval = Status zx_status_t | Value64 "64 word"

definition returns_status :: "zx_status_t \<times> 'k kstate \<Rightarrow> (retval \<times> 'k kstate) option" where
  "returns_status r = Some (Status (fst r), snd r)"

fun dispatch ::
  "platform \<Rightarrow> 'k env \<Rightarrow> syscall \<Rightarrow> 'k kstate \<Rightarrow> (retval \<times> 'k kstate) option" where
  "dispatch p env (Interrupt_create hrsrc options out) s =
     returns_status (sys_interrupt_create env hrsrc options out s)"
| "dispatch p env (Interrupt_bind handle slot hrsrc vector options) s =
     returns_status (sys_interrupt_bind env handle slot hrsrc vector options s)"
| "dispatch p env (Interrupt_unbind handle slot) s =
     returns_status (sys_interrupt_unbind env handle slot s)"
| "dispatch p env (Interrupt_complete handle) s =
     returns_status (sys_interrupt_complete env handle s)"
| "dispatch p env (Interrupt_wait handle out_slots) s =
     Option.bind (sys_interrupt_wait env handle out_slots s) returns_status"
| "dispatch p env (Interrupt_wait_with_timestamp handle out_slot out_timestamp) s =
     Option.bind (sys_interrupt_wait_with_timestamp env handle out_slot out_timestamp s)
       returns_status"
| "dispatch p env (Interrupt_signal handle slot timestamp) s =
     returns_status (sys_interrupt_signal env handle slot timestamp s)"
| "dispatch p env (Vmo_create_contiguous hrsrc sz alignment_log2 out) s =
     returns_status (sys_vmo_create_contiguous p env hrsrc sz alignment_log2 out s)"
| "dispatch p env (Vmo_create_physical hrsrc paddr sz out) s =
     returns_status (sys_vmo_create_physical p env hrsrc paddr sz out s)"
| "dispatch p env (Bootloader_fb_get_info format width height stride) s =
     returns_status (sys_bootloader_fb_get_info p env format width height stride s)"
| "dispatch p env (Set_framebuffer hrsrc vaddr len format width height stride) s =
     returns_status (sys_set_framebuffer env hrsrc vaddr len format width height stride s)"
| "dispatch p env (Set_framebuffer_vmo hrsrc vmo_handle len format width height stride) s =
     returns_status
       (sys_set_framebuffer_vmo env hrsrc vmo_handle len format width height stride s)"
| "dispatch p env (Mmap_device_io hrsrc io_addr len) s =
     returns_status (sys_mmap_device_io p env hrsrc io_addr len s)"
| "dispatch p env (Acpi_uefi_rsdp hrsrc) s =
     (case sys_acpi_uefi_rsdp p env hrsrc s of (v, s) \<Rightarrow> Some (Value64 v, s))"

text \<open>A call entered with kernel state \<open>k\<close>; the trace holds the calls it issues.\<close>

definition enter ::
  "platform \<Rightarrow> 'k env \<Rightarrow> syscall \<Rightarrow> 'k \<Rightarrow> (retval \<times> 'k kstate) option" where
  "enter p env c k = dispatch p env c \<lparr>kern = k, trace = []\<rparr>"

text \<open>
  How a routine hands a status back: as it is, except for \<open>sys_acpi_uefi_rsdp\<close>,
  whose return type is \<open>uint64_t\<close>.
\<close>

fun status_return :: "syscall \<Rightarrow> zx_status_t \<Rightarrow> retval" where
  "status_return (Acpi_uefi_rsdp hrsrc) status = Value64 (scast status)"
| "status_return c status = Status status"

text \<open>The resource handle among the arguments of a call, if it has one.\<close>

fun resource_handle :: "syscall \<Rightarrow> zx_handle_t option" where
  "resource_handle (Interrupt_create hrsrc options out) = Some hrsrc"
| "resource_handle (Interrupt_bind handle slot hrsrc vector options) = Some hrsrc"
| "resource_handle (Vmo_create_contiguous hrsrc sz alignment_log2 out) = Some hrsrc"
| "resource_handle (Vmo_create_physical hrsrc paddr sz out) = Some hrsrc"
| "resource_handle (Set_framebuffer hrsrc vaddr len format width height stride) = Some hrsrc"
| "resource_handle (Set_framebuffer_vmo hrsrc vmo_handle len format width height stride) =
     Some hrsrc"
| "resource_handle (Mmap_device_io hrsrc io_addr len) = Some hrsrc"
| "resource_handle (Acpi_uefi_rsdp hrsrc) = Some hrsrc"
| "resource_handle c = None"



text \<open>
  The checks a routine makes on its own, before it reaches the validator:
  \<open>sys_interrupt_create\<close> returns on options that are not 0,
  \<open>sys_vmo_create_contiguous\<close> on a size of 0 and on an alignment out of range, and
  \<open>sys_mmap_device_io\<close> where the architecture is not x86. The other routines that
  take a resource handle validate it in their first statement.
\<close>

fun returns_before_validation :: "platform \<Rightarrow> syscall \<Rightarrow> bool" where
  "returns_before_validation p (Interrupt_create hrsrc options out) = (options \<noteq> 0)"
| "returns_before_validation p (Vmo_create_contiguous hrsrc sz alignment_log2 out) =
     (sz = 0
      \<or> (if alignment_log2 = 0 then PAGE_SIZE_SHIFT p else alignment_log2) < PAGE_SIZE_SHIFT p
      \<or> 64 \<le> (if alignment_log2 = 0 then PAGE_SIZE_SHIFT p else alignment_log2))"
| "returns_before_validation p (Mmap_device_io hrsrc io_addr len) = (\<not> ARCH_X86 p)"
| "returns_before_validation p c = False"

text \<open>
  The validator call of a routine that takes a resource handle, with the answer the
  validator gives in kernel state \<open>k\<close>: \<open>validate_resource_mmio\<close> on the range of the
  caller for \<open>sys_vmo_create_physical\<close>, \<open>validate_resource\<close> against \<open>ROOT\<close> for the
  others.
\<close>

definition root_validation :: "'k env \<Rightarrow> zx_handle_t \<Rightarrow> 'k \<Rightarrow> event" where
  "root_validation env hrsrc k =
     EvValidateResource hrsrc ZX_RSRC_KIND_ROOT
       (validate_resource env hrsrc ZX_RSRC_KIND_ROOT k)"

fun first_validation :: "'k env \<Rightarrow> syscall \<Rightarrow> 'k \<Rightarrow> event option" where
  "first_validation env (Interrupt_create hrsrc options out) k =
     Some (root_validation env hrsrc k)"
| "first_validation env (Interrupt_bind handle slot hrsrc vector options) k =
     Some (root_validation env hrsrc k)"
| "first_validation env (Vmo_create_contiguous hrsrc sz alignment_log2 out) k =
     Some (root_validation env hrsrc k)"
| "first_validation env (Vmo_create_physical hrsrc paddr sz out) k =
     Some (EvValidateResourceMmio hrsrc paddr sz (validate_resource_mmio env hrsrc paddr sz k))"
| "first_validation env (Set_framebuffer hrsrc vaddr len format width height stride) k =
     Some (root_validation env hrsrc k)"
| "first_validation env (Set_framebuffer_vmo hrsrc vmo_handle len format width height stride) k =
     Some (root_validation env hrsrc k)"
| "first_validation env (Mmap_device_io hrsrc io_addr len) k =
     Some (root_validation env hrsrc k)"
| "first_validation env (Acpi_uefi_rsdp hrsrc) k =
     Some (root_validation env hrsrc k)"
| "first_validation env c k = None"

subsection \<open>Reading a trace\<close>

text \<open>The status of a validation, for the two validator calls; \<open>None\<close> for any other call.\<close>

fun validation_status :: "event \<Rightarrow> zx_status_t option" where
  "validation_status (EvValidateResource h kind status) = Some status"
| "validation_status (EvValidateResourceMmio h base len status) = Some status"
| "validation_status e = None"

fun validated_handle :: "event \<Rightarrow> zx_handle_t option" where
  "validated_handle (EvValidateResource h kind status) = Some h"
| "validated_handle (EvValidateResourceMmio h base len status) = Some h"
| "validated_handle e = None"

definition is_validation :: "event \<Rightarrow> bool" where
  "is_validation e = (validation_status e \<noteq> None)"


text \<open>
  The physical range the validator was asked about, and the range the physical VM object
  was created over (the first such call of a trace).
\<close>

fun validated_range :: "event list \<Rightarrow> (paddr_t \<times> size_t) option" where
  "validated_range [] = None"
| "validated_range (EvValidateResourceMmio h base len status # es) = Some (base, len)"
| "validated_range (e # es) = validated_range es"

fun wrapped_range :: "event list \<Rightarrow> (paddr_t \<times> size_t) option" where
  "wrapped_range [] = None"
| "wrapped_range (EvVmObjectPhysicalCreate pa sz status # es) = Some (pa, sz)"
| "wrapped_range (e # es) = wrapped_range es"

text \<open>Calls that reach the page allocator: creating a paged VM object and committing it.\<close>

fun is_page_allocation :: "event \<Rightarrow> bool" where
  "is_page_allocation (EvVmObjectPagedCreate flags sz status) = True"
| "is_page_allocation (EvCommitRangeContiguous v offset len align status committed) = True"
| "is_page_allocation e = False"


section \<open>A kernel to run the routines on\<close>

text \<open>
  The theorems about the routines hold for every \<open>env\<close>. To run a routine on a concrete
  input, the collaborators need bodies. The kernel below is a small stand-in: a handle
  table, the objects the handles name, a budget of contiguous memory, and the values
  copied out to user memory. Interrupt and display requests are accepted as they come.
\<close>

datatype kobject = Resource rsrc_kind paddr_t size_t | Interrupt | VmObject | Freed

record test_kernel =
  tk_objects :: "kobject list"
  tk_table :: "(zx_handle_t \<times> nat) list"
  tk_free :: "64 word"
  tk_user :: "(user_ptr \<times> user_value) list"

definition tk_lookup :: "test_kernel \<Rightarrow> zx_handle_t \<Rightarrow> (nat \<times> kobject) option" where
  "tk_lookup k h =
     (case map_of (tk_table k) h of
        None \<Rightarrow> None
      | Some d \<Rightarrow> if d < length (tk_objects k) then Some (d, tk_objects k ! d) else None)"

datatype validation_error = InvalidHandle | WrongKind | PermissionDenied | OutOfRange

text \<open>
  Modelled from the spec: \<open>validate_resource\<close> and \<open>validate_resource_mmio\<close> are declared
  in \<open>object/resources.h\<close> and defined outside this file. Section 4.1 gives their
  contract, \<open>validate(resource_handle, required_kind, [range])\<close>: the handle is resolved
  through the handle table of the caller and fails \<open>InvalidHandle\<close> if absent or of the
  wrong object type; a resource of another kind than the required one fails \<open>WrongKind\<close>,
  where \<open>ROOT\<close> always matches; if a range is supplied and the resource is ranged, it
  fails \<open>OutOfRange\<close> unless the range is fully contained (\<open>b \<le> b'\<close> and
  \<open>b' + s' \<le> b + s\<close>, section 8).
\<close>

definition validate ::
  "test_kernel \<Rightarrow> zx_handle_t \<Rightarrow> rsrc_kind \<Rightarrow> (paddr_t \<times> size_t) option
     \<Rightarrow> validation_error option" where
  "validate k h required_kind rng =
     (case tk_lookup k h of
        None \<Rightarrow> Some InvalidHandle
      | Some (d, Resource kind b s) \<Rightarrow>
          if kind = ZX_RSRC_KIND_ROOT then None
          else if kind \<noteq> required_kind then Some WrongKind
          else (case rng of
                  None \<Rightarrow> None
                | Some (b', s') \<Rightarrow>
                    if unat b \<le> unat b' \<and> unat b' + unat s' \<le> unat b + unat s then None
                    else Some OutOfRange)
      | Some (d, other) \<Rightarrow> Some InvalidHandle)"

text \<open>
  Modelled from the spec: the status that stands for each outcome of the validator; the
  spec names the outcomes and \<open>zircon/errors.h\<close> has a code of each name.
\<close>

fun validation_result :: "validation_error option \<Rightarrow> zx_status_t" where
  "validation_result None = ZX_OK"
| "validation_result (Some InvalidHandle) = ZX_ERR_BAD_HANDLE"
| "validation_result (Some WrongKind) = ZX_ERR_WRONG_TYPE"
| "validation_result (Some PermissionDenied) = ZX_ERR_ACCESS_DENIED"
| "validation_result (Some OutOfRange) = ZX_ERR_OUT_OF_RANGE"

text \<open>
  Modelled from the spec: \<open>ProcessDispatcher::GetDispatcher\<close> is the \<open>lookup\<close> of
  section 4.2, \<open>NotFound\<close> for a value that is not in the table and \<open>WrongType\<close> when the
  object is not of the expected variant.
\<close>

definition tk_GetDispatcher ::
  "dispatcher_type \<Rightarrow> zx_handle_t \<Rightarrow> test_kernel \<Rightarrow> zx_status_t \<times> dispatcher_ref" where
  "tk_GetDispatcher ty h k =
     (case tk_lookup k h of
        None \<Rightarrow> (ZX_ERR_BAD_HANDLE, 0)
      | Some (d, Interrupt) \<Rightarrow>
          if ty = InterruptDispatcher then (ZX_OK, d) else (ZX_ERR_WRONG_TYPE, 0)
      | Some (d, VmObject) \<Rightarrow>
          if ty = VmObjectDispatcher then (ZX_OK, d) else (ZX_ERR_WRONG_TYPE, 0)
      | Some (d, other) \<Rightarrow> (ZX_ERR_WRONG_TYPE, 0))"

definition tk_new_object :: "kobject \<Rightarrow> test_kernel \<Rightarrow> nat \<times> test_kernel" where
  "tk_new_object obj k = (length (tk_objects k), k\<lparr>tk_objects := tk_objects k @ [obj]\<rparr>)"

definition tk_MapHandleToValue :: "handle_ref option \<Rightarrow> test_kernel \<Rightarrow> zx_handle_t" where
  "tk_MapHandleToValue handle k = (case handle of None \<Rightarrow> 0 | Some h \<Rightarrow> of_nat h + 1)"

definition tk_AddHandle :: "handle_ref option \<Rightarrow> test_kernel \<Rightarrow> test_kernel" where
  "tk_AddHandle handle k =
     (case handle of
        None \<Rightarrow> k
      | Some h \<Rightarrow> k\<lparr>tk_table := (tk_MapHandleToValue handle k, h) # tk_table k\<rparr>)"

definition tk_copy_to_user ::
  "user_ptr \<Rightarrow> user_value \<Rightarrow> test_kernel \<Rightarrow> zx_status_t \<times> test_kernel" where
  "tk_copy_to_user ptr v k =
     (if ptr = 0 then (ZX_ERR_INVALID_ARGS, k)
      else (ZX_OK, k\<lparr>tk_user := (ptr, v) # tk_user k\<rparr>))"

text \<open>
  Modelled from the spec: the page allocator of section 6,
  \<open>allocate contiguous pages(count, alignment) -> pages | NoMemory\<close>, as a budget of
  bytes.
\<close>

definition tk_CommitRangeContiguous ::
  "vmo_ref \<Rightarrow> 64 word \<Rightarrow> 64 word \<Rightarrow> 8 word \<Rightarrow> test_kernel
     \<Rightarrow> (zx_status_t \<times> 64 word) \<times> test_kernel" where
  "tk_CommitRangeContiguous v offset len align k =
     (if len \<le> tk_free k then ((ZX_OK, len), k\<lparr>tk_free := tk_free k - len\<rparr>)
      else ((ZX_ERR_NO_MEMORY, 0), k))"

definition test_env :: "test_kernel env" where
  "test_env =
     \<lparr>validate_resource = (\<lambda>h kind k. validation_result (validate k h kind None)),
      validate_resource_mmio =
        (\<lambda>h base len k. validation_result (validate k h ZX_RSRC_KIND_MMIO (Some (base, len)))),
      GetDispatcher = tk_GetDispatcher,
      MapHandleToValue = tk_MapHandleToValue,
      vaddr_to_paddr = (\<lambda>va k. va),
      dispatcher_vmo = (\<lambda>d k. d),
      InterruptEventDispatcher_Create =
        (\<lambda>k. case tk_new_object Interrupt k of (d, k) \<Rightarrow> ((ZX_OK, d, 0), k)),
      Handle_Make = (\<lambda>d rights k. (Some d, k)),
      Handle_Delete = (\<lambda>h k. k),
      AddHandle = tk_AddHandle,
      copy_to_user = tk_copy_to_user,
      Bind = (\<lambda>d slot vector options k. (ZX_OK, k)),
      Unbind = (\<lambda>d slot k. (ZX_OK, k)),
      WaitForInterrupt = (\<lambda>d k. Some ((ZX_OK, 1), k)),
      WaitForInterruptWithTimeStamp = (\<lambda>d k. Some ((ZX_OK, 0, 0), k)),
      UserSignal = (\<lambda>d slot ts k. (ZX_OK, k)),
      VmObjectPaged_Create =
        (\<lambda>flags sz k. case tk_new_object VmObject k of (v, k) \<Rightarrow> ((ZX_OK, v), k)),
      CommitRangeContiguous = tk_CommitRangeContiguous,
      VmObject_Release = (\<lambda>v k. k\<lparr>tk_objects := (tk_objects k)[v := Freed]\<rparr>),
      VmObjectPhysical_Create =
        (\<lambda>pa sz k. case tk_new_object VmObject k of (v, k) \<Rightarrow> ((ZX_OK, v), k)),
      VmObjectDispatcher_Create = (\<lambda>v k. ((ZX_OK, v, 0), k)),
      udisplay_set_framebuffer = (\<lambda>pa len k. (ZX_OK, k)),
      udisplay_set_framebuffer_vmo = (\<lambda>v k. (ZX_OK, k)),
      udisplay_set_display_info = (\<lambda>di k. k),
      SetIoBitmap = (\<lambda>io_addr len enable k. (ZX_OK, k))\<rparr>"

text \<open>
  A process that holds a root resource (handle 1), an interrupt object (handle 2) and a
  VM object (handle 3), with four pages of contiguous memory left.
\<close>

definition boot_kernel :: test_kernel where
  "boot_kernel =
     \<lparr>tk_objects = [Resource ZX_RSRC_KIND_ROOT 0 0, Interrupt, VmObject],
      tk_table = [(1, 0), (2, 1), (3, 2)],
      tk_free = 0x4000,
      tk_user = []\<rparr>"

text \<open>
  A process whose only handle is an MMIO resource that covers the single byte
  \<open>[0x1000, 0x1001)\<close>.
\<close>

definition mmio_kernel :: test_kernel where
  "mmio_kernel =
     \<lparr>tk_objects = [Resource ZX_RSRC_KIND_MMIO 0x1000 1],
      tk_table = [(1, 0)],
      tk_free = 0x4000,
      tk_user = []\<rparr>"

text \<open>
  Two platforms with 4 KiB pages: a PC booted without a framebuffer, and an arm64 board.
\<close>

definition pc :: platform where
  "pc =
     \<lparr>ARCH_X86 = True, PAGE_SIZE_SHIFT = 12,
      bootloader =
        \<lparr>fb = \<lparr>fb_base = 0, fb_format = 0, fb_width = 0, fb_height = 0, fb_stride = 0\<rparr>,
         acpi_rsdp = 0xF0000\<rparr>\<rparr>"

definition arm64 :: platform where
  "arm64 =
     \<lparr>ARCH_X86 = False, PAGE_SIZE_SHIFT = 12,
      bootloader =
        \<lparr>fb = \<lparr>fb_base = 0, fb_format = 0, fb_width = 0, fb_height = 0, fb_stride = 0\<rparr>,
         acpi_rsdp = 0\<rparr>\<rparr>"

section \<open>The interrupt object\<close>

text \<open>
  Modelled from the spec: \<open>InterruptEventDispatcher\<close> (\<open>Create\<close>, \<open>Bind\<close>,
  \<open>UserSignal\<close>, \<open>WaitForInterruptWithTimeStamp\<close>) is declared in
  \<open>object/interrupt_event_dispatcher.h\<close> and defined outside this file; the routines
  above only forward to it. Sections 3 and 4.3 describe it: an interrupt object has
  \<open>slots[MAX_SLOTS]\<close>, each with a vector, a state (\<open>IDLE\<close>, \<open>BOUND\<close>, \<open>SIGNALED\<close>) and a
  pending timestamp, and an object-wide terminal state \<open>DESTROYED\<close>.
\<close>

datatype slot_state = IDLE | BOUND | SIGNALED

record slot =
  sl_vector :: "32 word"
  sl_state :: slot_state
  sl_pending_timestamp :: zx_time_t

record interrupt_object =
  slots :: "slot list"
  destroyed :: bool

datatype interrupt_error = InvalidArgs | AlreadyBound | NotBound | Cancelled

text \<open>
  Modelled from the spec: the number of slots is not given; a wait reports the signaled
  slots as a 64-bit mask, one bit a slot.
\<close>

definition MAX_SLOTS :: nat where
  "MAX_SLOTS = 64"

text \<open>
  Modelled from the spec: \<open>Create\<close> "allocates object in \<open>IDLE\<close>, zero slots bound. No
  hardware side effect."
\<close>

definition Create :: interrupt_object where
  "Create =
     \<lparr>slots = replicate MAX_SLOTS \<lparr>sl_vector = 0, sl_state = IDLE, sl_pending_timestamp = 0\<rparr>,
      destroyed = False\<rparr>"

text \<open>An object claims a vector when one of its slots is bound to it.\<close>

definition claims :: "interrupt_object \<Rightarrow> 32 word \<Rightarrow> bool" where
  "claims obj v = list_ex (\<lambda>sl. sl_state sl \<noteq> IDLE \<and> sl_vector sl = v) (slots obj)"

text \<open>
  Modelled from the spec: \<open>Bind(slot, vector, options)\<close> "fails \<open>InvalidArgs\<close> if \<open>slot\<close>
  out of range or already bound to a different vector, \<open>AlreadyBound\<close> if vector is
  claimed by another interrupt object"; otherwise the slot receives the vector. The other
  interrupt objects of the system are the first argument. Binding a slot again to the
  vector it has is taken as the no-op success (section 8 leaves the choice open).
\<close>

definition Bind_slot ::
  "interrupt_object list \<Rightarrow> interrupt_object \<Rightarrow> nat \<Rightarrow> 32 word \<Rightarrow> 32 word
     \<Rightarrow> interrupt_error + interrupt_object" where
  "Bind_slot others obj sl v options =
     (if length (slots obj) \<le> sl then Inl InvalidArgs
      else if sl_state (slots obj ! sl) \<noteq> IDLE \<and> sl_vector (slots obj ! sl) \<noteq> v
        then Inl InvalidArgs
      else if list_ex (\<lambda>other. claims other v) others then Inl AlreadyBound
      else if sl_state (slots obj ! sl) \<noteq> IDLE then Inr obj
      else Inr (obj\<lparr>slots := (slots obj)
                  [sl := \<lparr>sl_vector = v, sl_state = BOUND, sl_pending_timestamp = 0\<rparr>]\<rparr>))"

text \<open>
  Modelled from the spec: \<open>UserSignal(slot, timestamp)\<close> is a "software-injected signal,
  identical effect to a hardware-fired interrupt but with caller-supplied timestamp"
  (the handler "records \<open>pending_timestamp\<close> and transitions the slot to \<open>SIGNALED\<close>");
  it "fails \<open>NotBound\<close> if slot unbound".
\<close>

definition UserSignal_slot ::
  "interrupt_object \<Rightarrow> nat \<Rightarrow> zx_time_t \<Rightarrow> interrupt_error + interrupt_object" where
  "UserSignal_slot obj sl ts =
     (if length (slots obj) \<le> sl \<or> sl_state (slots obj ! sl) = IDLE then Inl NotBound
      else Inr (obj\<lparr>slots := (slots obj)
                  [sl := (slots obj ! sl)\<lparr>sl_state := SIGNALED, sl_pending_timestamp := ts\<rparr>]\<rparr>))"

text \<open>The lowest slot that is signaled.\<close>

fun first_signaled :: "slot list \<Rightarrow> nat option" where
  "first_signaled [] = None"
| "first_signaled (sl # sls) =
     (if sl_state sl = SIGNALED then Some 0 else map_option Suc (first_signaled sls))"

text \<open>
  Modelled from the spec: \<open>WaitForInterruptWithTimeStamp() -> (slot, timestamp)\<close> "blocks
  the calling thread until at least one bound slot reaches \<open>SIGNALED\<close>, then atomically
  consumes and clears that slot's signal, returning to \<open>BOUND\<close>. Must return immediately
  (no block) if a slot is already \<open>SIGNALED\<close> at call time." A destroyed object gives
  \<open>Cancelled\<close>. What the call does at call time is one of three outcomes.
\<close>

datatype wait_outcome =
    Blocks
  | Returns "32 word" zx_time_t interrupt_object
  | Fails interrupt_error

definition WaitForInterruptWithTimeStamp_now :: "interrupt_object \<Rightarrow> wait_outcome" where
  "WaitForInterruptWithTimeStamp_now obj =
     (if destroyed obj then Fails Cancelled
      else case first_signaled (slots obj) of
          None \<Rightarrow> Blocks
        | Some sl \<Rightarrow>
            Returns (of_nat sl) (sl_pending_timestamp (slots obj ! sl))
              (obj\<lparr>slots := (slots obj)[sl := (slots obj ! sl)\<lparr>sl_state := BOUND\<rparr>]\<rparr>))"

text \<open>The slot and the timestamp of a wait that returned at once.\<close>

fun returned :: "wait_outcome \<Rightarrow> (32 word \<times> zx_time_t) option" where
  "returned (Returns sl ts obj) = Some (sl, ts)"
| "returned w = None"

text \<open>
  The round trip of section 8, on a fresh object: \<open>Create\<close>, \<open>Bind(slot=0, vector=V)\<close>,
  \<open>UserSignal(slot=0, ts=T)\<close>, then the wait. A step that fails ends the sequence with
  its error.
\<close>

definition round_trip ::
  "interrupt_object list \<Rightarrow> 32 word \<Rightarrow> 32 word \<Rightarrow> zx_time_t \<Rightarrow> wait_outcome" where
  "round_trip others V options T =
     (case Bind_slot others Create 0 V options of
        Inl err \<Rightarrow> Fails err
      | Inr obj \<Rightarrow>
          (case UserSignal_slot obj 0 T of
             Inl err \<Rightarrow> Fails err
           | Inr obj \<Rightarrow> WaitForInterruptWithTimeStamp_now obj))"

section \<open>Properties of the entry routines\<close>

subsection \<open>Unfolding the calls and evaluating status codes\<close>

lemmas call_defs =
  call_validate_resource_def call_validate_resource_mmio_def call_GetDispatcher_def
  call_MapHandleToValue_def call_vaddr_to_paddr_def call_dispatcher_vmo_def
  call_InterruptEventDispatcher_Create_def call_Handle_Make_def destroy_HandleOwner_def
  call_AddHandle_def call_copy_to_user_def call_Bind_def call_Unbind_def
  call_WaitForInterrupt_def call_WaitForInterruptWithTimeStamp_def call_UserSignal_def
  call_VmObjectPaged_Create_def call_CommitRangeContiguous_def destroy_VmObject_RefPtr_def
  call_VmObjectPhysical_Create_def call_VmObjectDispatcher_Create_def
  call_udisplay_set_framebuffer_def call_udisplay_set_framebuffer_vmo_def
  call_udisplay_set_display_info_def call_SetIoBitmap_def
  query_def invoke_def effect_def blocking_def emit_def Let_def

lemmas test_defs =
  test_env_def boot_kernel_def validate_def tk_lookup_def tk_GetDispatcher_def
  tk_new_object_def tk_MapHandleToValue_def tk_AddHandle_def tk_copy_to_user_def
  tk_CommitRangeContiguous_def

lemmas zx_status_defs =
  ZX_OK_def ZX_ERR_NOT_SUPPORTED_def ZX_ERR_NO_MEMORY_def ZX_ERR_INVALID_ARGS_def
  ZX_ERR_BAD_HANDLE_def ZX_ERR_WRONG_TYPE_def ZX_ERR_OUT_OF_RANGE_def ZX_ERR_ACCESS_DENIED_def

lemma returns_status_eq:
  "returns_status x = Some (r, s') \<longleftrightarrow> (\<exists>status. x = (status, s') \<and> r = Status status)"
  by (cases x) (auto simp: returns_status_def)

lemma bind_returns_status_eq:
  "Option.bind y returns_status = Some (r, s') \<longleftrightarrow>
     (\<exists>status. y = Some (status, s') \<and> r = Status status)"
  by (cases y) (auto simp: returns_status_eq)

subsection \<open>A failed validation is the whole call\<close>

text \<open>
  Routine by routine: if the trace of a call holds a validation that returned a negative
  status, the call returned that status, the kernel state is the one it was entered with,
  and the validation is the only call the routine made.
\<close>

lemma failed_validation_interrupt_create:
  "sys_interrupt_create env hrsrc options out \<lparr>kern = k, trace = []\<rparr> = (r, s')
     \<Longrightarrow> e \<in> set (trace s') \<Longrightarrow> validation_status e = Some status \<Longrightarrow> status <s 0
     \<Longrightarrow> r = status \<and> kern s' = k \<and> trace s' = [e]"
  by (auto simp: sys_interrupt_create_def call_defs split: prod.splits if_splits option.splits)

lemma failed_validation_interrupt_bind:
  "sys_interrupt_bind env handle slot hrsrc vector options \<lparr>kern = k, trace = []\<rparr> = (r, s')
     \<Longrightarrow> e \<in> set (trace s') \<Longrightarrow> validation_status e = Some status \<Longrightarrow> status <s 0
     \<Longrightarrow> r = status \<and> kern s' = k \<and> trace s' = [e]"
  by (auto simp: sys_interrupt_bind_def call_defs split: prod.splits if_splits)

lemma failed_validation_interrupt_unbind:
  "sys_interrupt_unbind env handle slot \<lparr>kern = k, trace = []\<rparr> = (r, s')
     \<Longrightarrow> e \<in> set (trace s') \<Longrightarrow> validation_status e = Some status \<Longrightarrow> status <s 0
     \<Longrightarrow> r = status \<and> kern s' = k \<and> trace s' = [e]"
  by (auto simp: sys_interrupt_unbind_def call_defs split: prod.splits if_splits)

lemma failed_validation_interrupt_complete:
  "sys_interrupt_complete env handle \<lparr>kern = k, trace = []\<rparr> = (r, s')
     \<Longrightarrow> e \<in> set (trace s') \<Longrightarrow> validation_status e = Some status \<Longrightarrow> status <s 0
     \<Longrightarrow> r = status \<and> kern s' = k \<and> trace s' = [e]"
  by (auto simp: sys_interrupt_complete_def call_defs split: prod.splits if_splits)

lemma failed_validation_interrupt_wait:
  "sys_interrupt_wait env handle out_slots \<lparr>kern = k, trace = []\<rparr> = Some (r, s')
     \<Longrightarrow> e \<in> set (trace s') \<Longrightarrow> validation_status e = Some status \<Longrightarrow> status <s 0
     \<Longrightarrow> r = status \<and> kern s' = k \<and> trace s' = [e]"
  by (auto simp: sys_interrupt_wait_def call_defs split: prod.splits if_splits option.splits)

lemma failed_validation_interrupt_wait_with_timestamp:
  "sys_interrupt_wait_with_timestamp env handle out_slot out_timestamp
       \<lparr>kern = k, trace = []\<rparr> = Some (r, s')
     \<Longrightarrow> e \<in> set (trace s') \<Longrightarrow> validation_status e = Some status \<Longrightarrow> status <s 0
     \<Longrightarrow> r = status \<and> kern s' = k \<and> trace s' = [e]"
  by (auto simp: sys_interrupt_wait_with_timestamp_def call_defs
      split: prod.splits if_splits option.splits)

lemma failed_validation_interrupt_signal:
  "sys_interrupt_signal env handle slot timestamp \<lparr>kern = k, trace = []\<rparr> = (r, s')
     \<Longrightarrow> e \<in> set (trace s') \<Longrightarrow> validation_status e = Some status \<Longrightarrow> status <s 0
     \<Longrightarrow> r = status \<and> kern s' = k \<and> trace s' = [e]"
  by (auto simp: sys_interrupt_signal_def call_defs split: prod.splits if_splits)

lemma failed_validation_vmo_create_contiguous:
  "sys_vmo_create_contiguous p env hrsrc sz alignment_log2 out \<lparr>kern = k, trace = []\<rparr> = (r, s')
     \<Longrightarrow> e \<in> set (trace s') \<Longrightarrow> validation_status e = Some status \<Longrightarrow> status <s 0
     \<Longrightarrow> r = status \<and> kern s' = k \<and> trace s' = [e]"
  by (auto simp: sys_vmo_create_contiguous_def vmo_make_handle_def call_defs
      split: prod.splits if_splits option.splits)

lemma failed_validation_vmo_create_physical:
  "sys_vmo_create_physical p env hrsrc paddr sz out \<lparr>kern = k, trace = []\<rparr> = (r, s')
     \<Longrightarrow> e \<in> set (trace s') \<Longrightarrow> validation_status e = Some status \<Longrightarrow> status <s 0
     \<Longrightarrow> r = status \<and> kern s' = k \<and> trace s' = [e]"
  by (auto simp: sys_vmo_create_physical_def vmo_make_handle_def call_defs
      split: prod.splits if_splits option.splits)

lemma failed_validation_bootloader_fb_get_info:
  "sys_bootloader_fb_get_info p env format width height stride \<lparr>kern = k, trace = []\<rparr> = (r, s')
     \<Longrightarrow> e \<in> set (trace s') \<Longrightarrow> validation_status e = Some status \<Longrightarrow> status <s 0
     \<Longrightarrow> r = status \<and> kern s' = k \<and> trace s' = [e]"
  by (auto simp: sys_bootloader_fb_get_info_def call_defs split: prod.splits if_splits)

lemma failed_validation_set_framebuffer:
  "sys_set_framebuffer env hrsrc vaddr len format width height stride
       \<lparr>kern = k, trace = []\<rparr> = (r, s')
     \<Longrightarrow> e \<in> set (trace s') \<Longrightarrow> validation_status e = Some status \<Longrightarrow> status <s 0
     \<Longrightarrow> r = status \<and> kern s' = k \<and> trace s' = [e]"
  by (auto simp: sys_set_framebuffer_def call_defs split: prod.splits if_splits)

lemma failed_validation_set_framebuffer_vmo:
  "sys_set_framebuffer_vmo env hrsrc vmo_handle len format width height stride
       \<lparr>kern = k, trace = []\<rparr> = (r, s')
     \<Longrightarrow> e \<in> set (trace s') \<Longrightarrow> validation_status e = Some status \<Longrightarrow> status <s 0
     \<Longrightarrow> r = status \<and> kern s' = k \<and> trace s' = [e]"
  by (auto simp: sys_set_framebuffer_vmo_def call_defs split: prod.splits if_splits)

lemma failed_validation_mmap_device_io:
  "sys_mmap_device_io p env hrsrc io_addr len \<lparr>kern = k, trace = []\<rparr> = (r, s')
     \<Longrightarrow> e \<in> set (trace s') \<Longrightarrow> validation_status e = Some status \<Longrightarrow> status <s 0
     \<Longrightarrow> r = status \<and> kern s' = k \<and> trace s' = [e]"
  by (auto simp: sys_mmap_device_io_def call_defs split: prod.splits if_splits)

lemma acpi_uefi_rsdp_failed_validation:
  "sys_acpi_uefi_rsdp p env hrsrc \<lparr>kern = k, trace = []\<rparr> = (v, s')
     \<Longrightarrow> e \<in> set (trace s') \<Longrightarrow> validation_status e = Some status \<Longrightarrow> status <s 0
     \<Longrightarrow> v = scast status \<and> kern s' = k \<and> trace s' = [e]"
  by (auto simp: sys_acpi_uefi_rsdp_def call_defs split: prod.splits if_splits)

text \<open>
  C1. For every routine of the file: if resource validation fails (the validator returns
  a negative status), the call returns that failure, and it has created no handle,
  changed no slot state, committed no page and issued no hardware call: the kernel state
  is unchanged and the failed validation is the only collaborator call of the trace.
  \<open>sys_acpi_uefi_rsdp\<close> returns the status converted to its \<open>uint64_t\<close> result.
\<close>

theorem validation_precedes_effect:
  assumes run: "enter p env c k = Some (r, s')"
    and e: "e \<in> set (trace s')"
    and v: "validation_status e = Some status"
    and neg: "status <s 0"
  shows "r = status_return c status \<and> kern s' = k \<and> trace s' = [e]"
proof (cases c)
  case (Interrupt_create hrsrc options out)
  with run obtain st where "sys_interrupt_create env hrsrc options out \<lparr>kern = k, trace = []\<rparr> = (st, s')" "r = Status st"
    by (auto simp: enter_def returns_status_eq)
  with failed_validation_interrupt_create [OF _ e v neg] Interrupt_create show ?thesis by simp
next
  case (Interrupt_bind handle slot hrsrc vector options)
  with run obtain st where "sys_interrupt_bind env handle slot hrsrc vector options \<lparr>kern = k, trace = []\<rparr> = (st, s')" "r = Status st"
    by (auto simp: enter_def returns_status_eq)
  with failed_validation_interrupt_bind [OF _ e v neg] Interrupt_bind show ?thesis by simp
next
  case (Interrupt_unbind handle slot)
  with run obtain st where "sys_interrupt_unbind env handle slot \<lparr>kern = k, trace = []\<rparr> = (st, s')" "r = Status st"
    by (auto simp: enter_def returns_status_eq)
  with failed_validation_interrupt_unbind [OF _ e v neg] Interrupt_unbind show ?thesis by simp
next
  case (Interrupt_complete handle)
  with run obtain st where "sys_interrupt_complete env handle \<lparr>kern = k, trace = []\<rparr> = (st, s')" "r = Status st"
    by (auto simp: enter_def returns_status_eq)
  with failed_validation_interrupt_complete [OF _ e v neg] Interrupt_complete show ?thesis by simp
next
  case (Interrupt_wait handle out_slots)
  with run obtain st where "sys_interrupt_wait env handle out_slots \<lparr>kern = k, trace = []\<rparr> = Some (st, s')" "r = Status st"
    by (auto simp: enter_def bind_returns_status_eq)
  with failed_validation_interrupt_wait [OF _ e v neg] Interrupt_wait show ?thesis by simp
next
  case (Interrupt_wait_with_timestamp handle out_slot out_timestamp)
  with run obtain st where "sys_interrupt_wait_with_timestamp env handle out_slot out_timestamp \<lparr>kern = k, trace = []\<rparr> = Some (st, s')" "r = Status st"
    by (auto simp: enter_def bind_returns_status_eq)
  with failed_validation_interrupt_wait_with_timestamp [OF _ e v neg] Interrupt_wait_with_timestamp show ?thesis by simp
next
  case (Interrupt_signal handle slot timestamp)
  with run obtain st where "sys_interrupt_signal env handle slot timestamp \<lparr>kern = k, trace = []\<rparr> = (st, s')" "r = Status st"
    by (auto simp: enter_def returns_status_eq)
  with failed_validation_interrupt_signal [OF _ e v neg] Interrupt_signal show ?thesis by simp
next
  case (Vmo_create_contiguous hrsrc sz alignment_log2 out)
  with run obtain st where "sys_vmo_create_contiguous p env hrsrc sz alignment_log2 out \<lparr>kern = k, trace = []\<rparr> = (st, s')" "r = Status st"
    by (auto simp: enter_def returns_status_eq)
  with failed_validation_vmo_create_contiguous [OF _ e v neg] Vmo_create_contiguous show ?thesis by simp
next
  case (Vmo_create_physical hrsrc paddr sz out)
  with run obtain st where "sys_vmo_create_physical p env hrsrc paddr sz out \<lparr>kern = k, trace = []\<rparr> = (st, s')" "r = Status st"
    by (auto simp: enter_def returns_status_eq)
  with failed_validation_vmo_create_physical [OF _ e v neg] Vmo_create_physical show ?thesis by simp
next
  case (Bootloader_fb_get_info format width height stride)
  with run obtain st where "sys_bootloader_fb_get_info p env format width height stride \<lparr>kern = k, trace = []\<rparr> = (st, s')" "r = Status st"
    by (auto simp: enter_def returns_status_eq)
  with failed_validation_bootloader_fb_get_info [OF _ e v neg] Bootloader_fb_get_info show ?thesis by simp
next
  case (Set_framebuffer hrsrc vaddr len format width height stride)
  with run obtain st where "sys_set_framebuffer env hrsrc vaddr len format width height stride \<lparr>kern = k, trace = []\<rparr> = (st, s')" "r = Status st"
    by (auto simp: enter_def returns_status_eq)
  with failed_validation_set_framebuffer [OF _ e v neg] Set_framebuffer show ?thesis by simp
next
  case (Set_framebuffer_vmo hrsrc vmo_handle len format width height stride)
  with run obtain st where "sys_set_framebuffer_vmo env hrsrc vmo_handle len format width height stride \<lparr>kern = k, trace = []\<rparr> = (st, s')" "r = Status st"
    by (auto simp: enter_def returns_status_eq)
  with failed_validation_set_framebuffer_vmo [OF _ e v neg] Set_framebuffer_vmo show ?thesis by simp
next
  case (Mmap_device_io hrsrc io_addr len)
  with run obtain st where "sys_mmap_device_io p env hrsrc io_addr len \<lparr>kern = k, trace = []\<rparr> = (st, s')" "r = Status st"
    by (auto simp: enter_def returns_status_eq)
  with failed_validation_mmap_device_io [OF _ e v neg] Mmap_device_io show ?thesis by simp
next
  case (Acpi_uefi_rsdp hrsrc)
  with run obtain x where "sys_acpi_uefi_rsdp p env hrsrc \<lparr>kern = k, trace = []\<rparr> = (x, s')" "r = Value64 x"
    by (auto simp: enter_def split: prod.splits)
  with acpi_uefi_rsdp_failed_validation [OF _ e v neg] Acpi_uefi_rsdp show ?thesis by simp
qed

text \<open>
  The theorem at a concrete call: a contiguous VM object requested with a handle that is
  not in the table.
\<close>

lemma run_contiguous_bad_handle:
  "enter pc test_env (Vmo_create_contiguous 9 0x3000 0 0x2000) boot_kernel =
     Some (Status ZX_ERR_BAD_HANDLE,
           \<lparr>kern = boot_kernel,
            trace = [EvValidateResource 9 ZX_RSRC_KIND_ROOT ZX_ERR_BAD_HANDLE]\<rparr>)"
  by (simp add: enter_def returns_status_def sys_vmo_create_contiguous_def call_defs
      test_defs pc_def zx_status_defs word_sless_alt)

theorem validation_precedes_effect_witness:
  "enter pc test_env (Vmo_create_contiguous 9 0x3000 0 0x2000) boot_kernel =
     Some (Status ZX_ERR_BAD_HANDLE,
           \<lparr>kern = boot_kernel,
            trace = [EvValidateResource 9 ZX_RSRC_KIND_ROOT ZX_ERR_BAD_HANDLE]\<rparr>)
   \<and> validation_status (EvValidateResource 9 ZX_RSRC_KIND_ROOT ZX_ERR_BAD_HANDLE)
       = Some ZX_ERR_BAD_HANDLE
   \<and> ZX_ERR_BAD_HANDLE <s 0
   \<and> Status ZX_ERR_BAD_HANDLE
       = status_return (Vmo_create_contiguous 9 0x3000 0 0x2000) ZX_ERR_BAD_HANDLE"
proof -
  let ?e = "EvValidateResource 9 ZX_RSRC_KIND_ROOT ZX_ERR_BAD_HANDLE"
  let ?s = "\<lparr>kern = boot_kernel, trace = [?e]\<rparr>"
  have run: "enter pc test_env (Vmo_create_contiguous 9 0x3000 0 0x2000) boot_kernel =
     Some (Status ZX_ERR_BAD_HANDLE, ?s)"
    by (rule run_contiguous_bad_handle)
  have e: "?e \<in> set (trace ?s)" by simp
  have v: "validation_status ?e = Some ZX_ERR_BAD_HANDLE" by simp
  have neg: "ZX_ERR_BAD_HANDLE <s 0" by (simp add: ZX_ERR_BAD_HANDLE_def word_sless_alt)
  from validation_precedes_effect [OF run e v neg] run v neg show ?thesis by simp
qed

subsection \<open>Which routines validate, and when\<close>
















text \<open>
  The validator call of a routine is about the resource handle of the routine, and the
  routines that have one are those that take a resource handle.
\<close>

lemma first_validation_resource_handle:
  "(first_validation env c k = None \<longleftrightarrow> resource_handle c = None)
   \<and> (\<forall>e. first_validation env c k = Some e \<longrightarrow>
         is_validation e \<and> validated_handle e = resource_handle c)"
  by (cases c) (simp_all add: root_validation_def is_validation_def)

text \<open>The routines that take a resource handle do not block: they always return.\<close>

lemma resource_calls_return:
  "resource_handle c = Some hrsrc \<Longrightarrow> \<exists>r s'. enter p env c k = Some (r, s')"
  by (cases c) (simp_all add: enter_def returns_status_def split: prod.splits)






subsection \<open>Rounding to the page size\<close>

lemma roundup_aligned:
  "(x::64 word) AND m = 0 \<Longrightarrow> (x + m) AND NOT m = x"
  by (metis (no_types, lifting) add_diff_cancel and.assoc
    disjunctive_diff_eq_and_not or.right_neutral word_and_not
    word_ao_absorbs(1) word_plus_and_or)

lemma and_not_as_difference:
  "(a::64 word) AND NOT m = a - (a AND m)"
  by (metis (no_types, lifting) bit.de_Morgan_conj
    disjunctive_diff_eq_and_not word_and_not word_ao_absorbs(8)
    word_ao_dist2 word_bw_comms(1))

lemma roundup_excess:
  "(((x::64 word) + m) AND NOT m) - x \<le> m"
proof -
  have "((x + m) AND NOT m) - x = m - ((x + m) AND m)"
    by (simp add: and_not_as_difference)
  moreover have "(x + m) AND m \<le> m"
    by (rule word_and_le1)
  ultimately show ?thesis
    by (simp add: word_sub_le)
qed

lemma roundup_multiple:
  "(((x::64 word) + m) AND NOT m) AND m = 0"
  by (simp add: and.assoc)

lemma roundup_not_below:
  assumes "unat (x::64 word) + unat m < 2 ^ 64"
  shows "x \<le> (x + m) AND NOT m"
proof -
  define d where "d = ((x + m) AND NOT m) - x"
  have "d \<le> m"
    unfolding d_def by (rule roundup_excess)
  then have "unat d \<le> unat m"
    by (simp add: word_le_nat_alt)
  with assms have "unat x + unat d < 2 ^ LENGTH(64)"
    by simp
  then have "x \<le> x + d"
    by (simp add: no_olen_add_nat)
  moreover have "x + d = (x + m) AND NOT m"
    by (simp add: d_def)
  ultimately show ?thesis
    by simp
qed

text \<open>
  \<open>ROUNDUP_PAGE_SIZE\<close> gives a multiple of the page size. It leaves a multiple of the page
  size as it is, and where \<open>size + (PAGE_SIZE - 1)\<close> does not exceed \<open>size_t\<close> it rounds up:
  the result is not below the size and less than a page above it.
\<close>

lemma ROUNDUP_PAGE_SIZE_multiple:
  "ROUNDUP_PAGE_SIZE p sz AND (PAGE_SIZE p - 1) = 0"
  unfolding ROUNDUP_PAGE_SIZE_def by (rule roundup_multiple)

lemma ROUNDUP_PAGE_SIZE_aligned:
  "sz AND (PAGE_SIZE p - 1) = 0 \<Longrightarrow> ROUNDUP_PAGE_SIZE p sz = sz"
  unfolding ROUNDUP_PAGE_SIZE_def by (rule roundup_aligned)

lemma ROUNDUP_PAGE_SIZE_rounds_up:
  assumes "unat sz + unat (PAGE_SIZE p - 1) < 2 ^ 64"
  shows "sz \<le> ROUNDUP_PAGE_SIZE p sz
       \<and> unat (ROUNDUP_PAGE_SIZE p sz) - unat sz \<le> unat (PAGE_SIZE p - 1)"
proof -
  have le: "sz \<le> ROUNDUP_PAGE_SIZE p sz"
    unfolding ROUNDUP_PAGE_SIZE_def using assms by (rule roundup_not_below)
  have "ROUNDUP_PAGE_SIZE p sz - sz \<le> PAGE_SIZE p - 1"
    unfolding ROUNDUP_PAGE_SIZE_def by (rule roundup_excess)
  then have "unat (ROUNDUP_PAGE_SIZE p sz - sz) \<le> unat (PAGE_SIZE p - 1)"
    by (simp add: word_le_nat_alt)
  moreover from le have "unat (ROUNDUP_PAGE_SIZE p sz - sz) = unat (ROUNDUP_PAGE_SIZE p sz) - unat sz"
    by (simp add: unat_sub)
  ultimately show ?thesis
    using le by simp
qed

subsection \<open>Physical VM objects\<close>

text \<open>
  What \<open>sys_vmo_create_physical\<close> does, for every behaviour of the collaborators: its
  first call asks the validator about exactly the range \<open>[paddr, paddr + size)\<close> of the
  caller; a physical VM object, when one is created, is created over
  \<open>[paddr, paddr + ROUNDUP_PAGE_SIZE(size))\<close>; a call that returns \<open>ZX_OK\<close> has created
  one and has added a handle as its last call; no call reaches the page allocator.
\<close>

lemma vmo_create_physical_calls:
  assumes "sys_vmo_create_physical p env hrsrc paddr sz out \<lparr>kern = k, trace = []\<rparr> = (r, s')"
  shows "trace s' \<noteq> []
       \<and> hd (trace s') =
           EvValidateResourceMmio hrsrc paddr sz (validate_resource_mmio env hrsrc paddr sz k)
       \<and> validated_range (trace s') = Some (paddr, sz)
       \<and> (wrapped_range (trace s') = None
            \<or> wrapped_range (trace s') = Some (paddr, ROUNDUP_PAGE_SIZE p sz))
       \<and> (r = ZX_OK \<longrightarrow>
            wrapped_range (trace s') = Some (paddr, ROUNDUP_PAGE_SIZE p sz)
            \<and> (\<exists>handle. last (trace s') = EvAddHandle (Some handle)))
       \<and> (\<forall>e \<in> set (trace s'). \<not> is_page_allocation e)"
  using assms
  by (auto simp: sys_vmo_create_physical_def vmo_make_handle_def call_defs ZX_OK_def
      ZX_ERR_NO_MEMORY_def split: prod.splits if_splits option.splits)

text \<open>
  C3. The rule is that the validator confirms the grant for the range of the caller and
  that the VM object wraps exactly that range, not a larger one. The routine validates
  the size it was given and rounds it up afterwards, so the two ranges differ whenever
  the size is not a multiple of the page size. Here the caller holds an MMIO resource
  for the single byte \<open>[0x1000, 0x1001)\<close> and asks for size 1 with 4 KiB pages: the
  validator accepts \<open>[0x1000, 0x1001)\<close>, it refuses \<open>[0x1000, 0x2000)\<close> with
  \<open>OutOfRange\<close>, and the call returns \<open>ZX_OK\<close> with a handle to a VM object over
  \<open>[0x1000, 0x2000)\<close>.
\<close>

theorem vmo_create_physical_exceeds_grant:
  "validate_resource_mmio test_env 1 0x1000 1 mmio_kernel = ZX_OK
   \<and> validate_resource_mmio test_env 1 0x1000 0x1000 mmio_kernel = ZX_ERR_OUT_OF_RANGE
   \<and> ZX_ERR_OUT_OF_RANGE <s 0
   \<and> sys_vmo_create_physical pc test_env 1 0x1000 1 0x2000 \<lparr>kern = mmio_kernel, trace = []\<rparr> =
       (ZX_OK,
        \<lparr>kern = mmio_kernel
           \<lparr>tk_objects := [Resource ZX_RSRC_KIND_MMIO 0x1000 1, VmObject],
            tk_table := [(2, 1), (1, 0)],
            tk_user := [(0x2000, U32 2)]\<rparr>,
         trace = [EvValidateResourceMmio 1 0x1000 1 ZX_OK,
                  EvVmObjectPhysicalCreate 0x1000 0x1000 ZX_OK,
                  EvVmObjectDispatcherCreate 1 ZX_OK,
                  EvHandleMake 1 0 (Some 1),
                  EvMapHandleToValue (Some 1),
                  EvCopyToUser 0x2000 (U32 2) ZX_OK,
                  EvAddHandle (Some 1)]\<rparr>)
   \<and> validated_range
        (trace (snd (sys_vmo_create_physical pc test_env 1 0x1000 1 0x2000
                       \<lparr>kern = mmio_kernel, trace = []\<rparr>)))
       = Some (0x1000, 1)
   \<and> wrapped_range
        (trace (snd (sys_vmo_create_physical pc test_env 1 0x1000 1 0x2000
                       \<lparr>kern = mmio_kernel, trace = []\<rparr>)))
       = Some (0x1000, 0x1000)"
  by (simp add: sys_vmo_create_physical_def vmo_make_handle_def call_defs
      test_defs mmio_kernel_def pc_def zx_status_defs ROUNDUP_PAGE_SIZE_def PAGE_SIZE_def
      word_sless_alt)

subsection \<open>Contiguous VM objects\<close>

text \<open>
  The argument checks of \<open>sys_vmo_create_contiguous\<close>: a size of 0, an alignment that is
  not 0 and below the page-size shift, and an alignment of 64 or more each return
  \<open>ZX_ERR_INVALID_ARGS\<close> with nothing called and nothing changed.
\<close>

lemma vmo_create_contiguous_rejects:
  assumes "sz = 0
         \<or> (alignment_log2 \<noteq> 0 \<and> alignment_log2 < PAGE_SIZE_SHIFT p)
         \<or> 64 \<le> alignment_log2"
  shows "sys_vmo_create_contiguous p env hrsrc sz alignment_log2 out s = (ZX_ERR_INVALID_ARGS, s)
       \<and> returns_before_validation p (Vmo_create_contiguous hrsrc sz alignment_log2 out)"
  using assms by (auto simp: sys_vmo_create_contiguous_def)

text \<open>
  Past the argument checks and the validation, for an alignment of 0 as for an explicit
  one: the routine creates the paged VM object with the size \<open>ROUNDUP_PAGE_SIZE(size)\<close>
  and, if that succeeds, commits the range from 0 of that length on the object it got,
  with the alignment it was given, or the page-size shift for an alignment of 0.
\<close>

lemma vmo_create_contiguous_allocates:
  assumes run: "sys_vmo_create_contiguous p env hrsrc sz alignment_log2 out
                  \<lparr>kern = k, trace = []\<rparr> = (r, s')"
    and accepted: "\<not> returns_before_validation p (Vmo_create_contiguous hrsrc sz alignment_log2 out)"
    and valid: "\<not> validate_resource env hrsrc ZX_RSRC_KIND_ROOT k <s 0"
    and created: "VmObjectPaged_Create env PMM_ALLOC_FLAG_ANY (ROUNDUP_PAGE_SIZE p sz) k
                    = ((pstatus, vmo), k1)"
  shows "take 2 (trace s') =
           [root_validation env hrsrc k,
            EvVmObjectPagedCreate PMM_ALLOC_FLAG_ANY (ROUNDUP_PAGE_SIZE p sz) pstatus]
       \<and> (pstatus \<noteq> ZX_OK \<longrightarrow> r = pstatus \<and> kern s' = k1 \<and> length (trace s') = 2)
       \<and> (pstatus = ZX_OK \<longrightarrow>
            2 < length (trace s')
            \<and> trace s' ! 2 =
                EvCommitRangeContiguous vmo 0 (ROUNDUP_PAGE_SIZE p sz)
                  (ucast (if alignment_log2 = 0 then PAGE_SIZE_SHIFT p else alignment_log2))
                  (fst (fst (CommitRangeContiguous env vmo 0 (ROUNDUP_PAGE_SIZE p sz)
                     (ucast (if alignment_log2 = 0 then PAGE_SIZE_SHIFT p else alignment_log2))
                     k1)))
                  (snd (fst (CommitRangeContiguous env vmo 0 (ROUNDUP_PAGE_SIZE p sz)
                     (ucast (if alignment_log2 = 0 then PAGE_SIZE_SHIFT p else alignment_log2))
                     k1))))"
  using assms
  by (auto simp: sys_vmo_create_contiguous_def vmo_make_handle_def call_defs
      root_validation_def split: prod.splits if_splits option.splits)

text \<open>
  C4. The rule is: size 0 fails \<open>InvalidArgs\<close>; alignment 0 is taken as the page-size
  alignment; an alignment that is not 0 and below the page-size shift, or 64 or more,
  fails \<open>InvalidArgs\<close>; otherwise the size is rounded up to page granularity before the
  allocation. The first three hold (\<open>vmo_create_contiguous_rejects\<close>,
  \<open>vmo_create_contiguous_allocates\<close>), and so does the last wherever
  \<open>size + (PAGE_SIZE - 1)\<close> fits \<open>size_t\<close> (\<open>ROUNDUP_PAGE_SIZE_rounds_up\<close>). Above that the
  macro wraps around: with 4 KiB pages the size \<open>0xFFFFFFFFFFFFF001\<close> passes the
  \<open>size == 0\<close> check, is rounded to 0, not up, and the call creates and commits a VM object
  of 0 bytes and returns \<open>ZX_OK\<close> with a handle to it.
\<close>

theorem vmo_create_contiguous_size_wraps:
  "(0xFFFFFFFFFFFFF001 :: size_t) \<noteq> 0
   \<and> \<not> returns_before_validation pc (Vmo_create_contiguous 1 0xFFFFFFFFFFFFF001 0 0x2000)
   \<and> ROUNDUP_PAGE_SIZE pc 0xFFFFFFFFFFFFF001 = 0
   \<and> \<not> 0xFFFFFFFFFFFFF001 \<le> ROUNDUP_PAGE_SIZE pc 0xFFFFFFFFFFFFF001
   \<and> sys_vmo_create_contiguous pc test_env 1 0xFFFFFFFFFFFFF001 0 0x2000
         \<lparr>kern = boot_kernel, trace = []\<rparr> =
       (ZX_OK,
        \<lparr>kern = boot_kernel
           \<lparr>tk_objects := [Resource ZX_RSRC_KIND_ROOT 0 0, Interrupt, VmObject, VmObject],
            tk_table := [(4, 3), (1, 0), (2, 1), (3, 2)],
            tk_user := [(0x2000, U32 4)]\<rparr>,
         trace = [EvValidateResource 1 ZX_RSRC_KIND_ROOT ZX_OK,
                  EvVmObjectPagedCreate PMM_ALLOC_FLAG_ANY 0 ZX_OK,
                  EvCommitRangeContiguous 3 0 0 12 ZX_OK 0,
                  EvVmObjectDispatcherCreate 3 ZX_OK,
                  EvHandleMake 3 0 (Some 3),
                  EvMapHandleToValue (Some 3),
                  EvCopyToUser 0x2000 (U32 4) ZX_OK,
                  EvAddHandle (Some 3)]\<rparr>)"
  by (simp add: sys_vmo_create_contiguous_def vmo_make_handle_def call_defs
      test_defs pc_def zx_status_defs ROUNDUP_PAGE_SIZE_def PAGE_SIZE_def)




subsection \<open>Boot framebuffer, IO ports, ACPI\<close>

text \<open>
  C6, as stated: "returns NotSupported whenever the platform has no boot-provided
  framebuffer" fails on x86, where with a framebuffer base of 0 the routine returns
  \<open>ZX_ERR_INVALID_ARGS\<close>.
\<close>

theorem bootloader_fb_get_info_x86_invalid_args:
  "ARCH_X86 pc \<and> fb_base (fb (bootloader pc)) = 0
   \<and> sys_bootloader_fb_get_info pc test_env 0x1000 0x1004 0x1008 0x100C
         \<lparr>kern = boot_kernel, trace = []\<rparr>
       = (ZX_ERR_INVALID_ARGS, \<lparr>kern = boot_kernel, trace = []\<rparr>)
   \<and> ZX_ERR_INVALID_ARGS \<noteq> ZX_ERR_NOT_SUPPORTED"
  by (simp add: sys_bootloader_fb_get_info_def pc_def zx_status_defs)

text \<open>
  C6, amended. \<open>sys_bootloader_fb_get_info\<close> returns \<open>ZX_ERR_NOT_SUPPORTED\<close> on a
  platform that is not x86, and \<open>ZX_ERR_INVALID_ARGS\<close> on an x86 platform whose
  bootloader supplied no framebuffer base; in both cases it makes no call, so it writes
  none of the four out-values.
\<close>

theorem bootloader_fb_get_info_without_framebuffer:
  "(\<not> ARCH_X86 p \<longrightarrow>
      sys_bootloader_fb_get_info p env format width height stride s = (ZX_ERR_NOT_SUPPORTED, s))
 \<and> (ARCH_X86 p \<and> fb_base (fb (bootloader p)) = 0 \<longrightarrow>
      sys_bootloader_fb_get_info p env format width height stride s = (ZX_ERR_INVALID_ARGS, s))"
  by (simp add: sys_bootloader_fb_get_info_def)

text \<open>
  The theorem on the arm64 board and on the PC without a framebuffer.
\<close>

theorem bootloader_fb_get_info_without_framebuffer_witness:
  "\<not> ARCH_X86 arm64
   \<and> sys_bootloader_fb_get_info arm64 test_env 0x1000 0x1004 0x1008 0x100C
         \<lparr>kern = boot_kernel, trace = []\<rparr>
       = (ZX_ERR_NOT_SUPPORTED, \<lparr>kern = boot_kernel, trace = []\<rparr>)
   \<and> ARCH_X86 pc \<and> fb_base (fb (bootloader pc)) = 0
   \<and> sys_bootloader_fb_get_info pc test_env 0x1000 0x1004 0x1008 0x100C
         \<lparr>kern = boot_kernel, trace = []\<rparr>
       = (ZX_ERR_INVALID_ARGS, \<lparr>kern = boot_kernel, trace = []\<rparr>)"
  using
    bootloader_fb_get_info_without_framebuffer
      [of arm64 test_env "0x1000" "0x1004" "0x1008" "0x100C" "\<lparr>kern = boot_kernel, trace = []\<rparr>"]
    bootloader_fb_get_info_without_framebuffer
      [of pc test_env "0x1000" "0x1004" "0x1008" "0x100C" "\<lparr>kern = boot_kernel, trace = []\<rparr>"]
  by (simp add: pc_def arm64_def)

text \<open>
  C8. \<open>sys_acpi_uefi_rsdp\<close> makes one call, the validation of the resource handle
  against \<open>ROOT\<close>. If the validation passes, the result is the \<open>acpi_rsdp\<close> of the
  bootloader on x86 and 0 elsewhere. If it fails, the result is the status of the failed
  validation, returned as a value (sign-extended to the 64-bit result); the routine has
  no other failure.
\<close>

theorem acpi_uefi_rsdp_result:
  "sys_acpi_uefi_rsdp p env hrsrc \<lparr>kern = k, trace = []\<rparr> =
     (if validate_resource env hrsrc ZX_RSRC_KIND_ROOT k <s 0
        then scast (validate_resource env hrsrc ZX_RSRC_KIND_ROOT k)
      else if ARCH_X86 p then acpi_rsdp (bootloader p)
      else 0,
      \<lparr>kern = k,
       trace = [EvValidateResource hrsrc ZX_RSRC_KIND_ROOT
                  (validate_resource env hrsrc ZX_RSRC_KIND_ROOT k)]\<rparr>)"
  by (simp add: sys_acpi_uefi_rsdp_def call_defs)

text \<open>
  The theorem on the PC and on the arm64 board with the root resource, and on the PC with
  a handle that is not in the table.
\<close>

theorem acpi_uefi_rsdp_result_witness:
  "sys_acpi_uefi_rsdp pc test_env 1 \<lparr>kern = boot_kernel, trace = []\<rparr> =
     (0xF0000, \<lparr>kern = boot_kernel, trace = [EvValidateResource 1 ZX_RSRC_KIND_ROOT ZX_OK]\<rparr>)
   \<and> sys_acpi_uefi_rsdp arm64 test_env 1 \<lparr>kern = boot_kernel, trace = []\<rparr> =
     (0, \<lparr>kern = boot_kernel, trace = [EvValidateResource 1 ZX_RSRC_KIND_ROOT ZX_OK]\<rparr>)
   \<and> sys_acpi_uefi_rsdp pc test_env 9 \<lparr>kern = boot_kernel, trace = []\<rparr> =
     (0xFFFFFFFFFFFFFFF5,
      \<lparr>kern = boot_kernel, trace = [EvValidateResource 9 ZX_RSRC_KIND_ROOT ZX_ERR_BAD_HANDLE]\<rparr>)"
  using acpi_uefi_rsdp_result [of pc test_env 1 boot_kernel]
    acpi_uefi_rsdp_result [of arm64 test_env 1 boot_kernel]
    acpi_uefi_rsdp_result [of pc test_env 9 boot_kernel]
  by (simp add: test_defs pc_def arm64_def zx_status_defs word_sless_alt)

text \<open>
  C10. On a target that is not x86, \<open>sys_mmap_device_io\<close> returns
  \<open>ZX_ERR_NOT_SUPPORTED\<close> for every input and makes no call: the resource handle is not
  validated, whatever the validator would say about it.
\<close>

theorem mmap_device_io_not_x86:
  "\<not> ARCH_X86 p \<Longrightarrow> sys_mmap_device_io p env hrsrc io_addr len s = (ZX_ERR_NOT_SUPPORTED, s)"
  by (simp add: sys_mmap_device_io_def)

text \<open>
  The theorem on the arm64 board with a handle the validator rejects.
\<close>

theorem mmap_device_io_not_x86_witness:
  "\<not> ARCH_X86 arm64
   \<and> validate_resource test_env 9 ZX_RSRC_KIND_ROOT boot_kernel = ZX_ERR_BAD_HANDLE
   \<and> sys_mmap_device_io arm64 test_env 9 0x60 4 \<lparr>kern = boot_kernel, trace = []\<rparr> =
       (ZX_ERR_NOT_SUPPORTED, \<lparr>kern = boot_kernel, trace = []\<rparr>)"
proof -
  have a: "\<not> ARCH_X86 arm64" by (simp add: arm64_def)
  have v: "validate_resource test_env 9 ZX_RSRC_KIND_ROOT boot_kernel = ZX_ERR_BAD_HANDLE"
    by (simp add: test_defs)
  from mmap_device_io_not_x86 [OF a] a v show ?thesis by simp
qed

subsection \<open>The deprecated \<open>sys_interrupt_complete\<close>\<close>

text \<open>
  C9. \<open>sys_interrupt_complete\<close> returns the status of resolving the handle to an
  interrupt dispatcher and changes nothing: the kernel state (handle table, dispatchers,
  slots) is the one it was entered with, and the lookup is the only call.
\<close>

theorem interrupt_complete_frame:
  "sys_interrupt_complete env handle_value s =
     (fst (GetDispatcher env InterruptDispatcher handle_value (kern s)),
      s\<lparr>trace := trace s @
           [EvGetDispatcher InterruptDispatcher handle_value
              (fst (GetDispatcher env InterruptDispatcher handle_value (kern s)))]\<rparr>)"
  by (simp add: sys_interrupt_complete_def call_defs split: prod.splits)

subsection \<open>The interrupt round trip\<close>

text \<open>
  What the two routines of the round trip add to the dispatcher: \<open>sys_interrupt_signal\<close>
  hands slot and timestamp to \<open>UserSignal\<close> as they are, and
  \<open>sys_interrupt_wait_with_timestamp\<close> copies out the slot and the timestamp that the
  wait returned.
\<close>

lemma sys_interrupt_signal_forwards:
  assumes "GetDispatcher env InterruptDispatcher handle (kern s) = (ZX_OK, d)"
  shows "sys_interrupt_signal env handle slot timestamp s =
           call_UserSignal env d slot timestamp
             (emit (EvGetDispatcher InterruptDispatcher handle ZX_OK) s)"
  using assms by (simp add: sys_interrupt_signal_def call_GetDispatcher_def query_def)

lemma sys_interrupt_wait_with_timestamp_delivers:
  assumes "GetDispatcher env InterruptDispatcher handle (kern s) = (ZX_OK, d)"
    and "WaitForInterruptWithTimeStamp env d (kern s) = Some ((ZX_OK, sl, ts), k1)"
    and "out_slot \<noteq> 0" and "out_timestamp \<noteq> 0"
    and "copy_to_user env out_slot (U32 sl) k1 = (ZX_OK, k2)"
    and "copy_to_user env out_timestamp (U64 ts) k2 = (ZX_OK, k3)"
  shows "sys_interrupt_wait_with_timestamp env handle out_slot out_timestamp s =
           Some (ZX_OK,
                 \<lparr>kern = k3,
                  trace = trace s @
                    [EvGetDispatcher InterruptDispatcher handle ZX_OK,
                     EvWaitForInterruptWithTimeStamp d,
                     EvCopyToUser out_slot (U32 sl) ZX_OK,
                     EvCopyToUser out_timestamp (U64 ts) ZX_OK]\<rparr>)"
  using assms by (simp add: sys_interrupt_wait_with_timestamp_def call_defs)

lemma replicate_MAX_SLOTS:
  "replicate MAX_SLOTS x = x # replicate 63 x"
proof -
  have "replicate MAX_SLOTS x = replicate (Suc 63) x"
    by (simp add: MAX_SLOTS_def)
  also have "\<dots> = x # replicate 63 x"
    by (rule replicate_Suc)
  finally show ?thesis .
qed

text \<open>
  C7. For every vector \<open>V\<close> and timestamp \<open>T\<close>: \<open>Create\<close>, then
  \<open>Bind(slot=0, vector=V)\<close>, then \<open>UserSignal(slot=0, ts=T)\<close>, then
  \<open>WaitForInterruptWithTimeStamp\<close> returns \<open>(0, T)\<close> at once, without blocking. The
  other interrupt objects of the system are arbitrary, provided none of them has claimed
  \<open>V\<close> (\<open>Bind\<close> would fail \<open>AlreadyBound\<close>).
\<close>

theorem interrupt_round_trip:
  assumes "\<not> list_ex (\<lambda>other. claims other V) others"
  shows "returned (round_trip others V options T) = Some (0, T)"
  using assms
  by (simp add: round_trip_def Bind_slot_def Create_def UserSignal_slot_def
      WaitForInterruptWithTimeStamp_now_def replicate_MAX_SLOTS)

text \<open>
  The theorem in a system with no other interrupt object.
\<close>

theorem interrupt_round_trip_witness:
  "\<not> list_ex (\<lambda>other. claims other 5) []
   \<and> returned (round_trip [] 5 0 1000) = Some (0, 1000)"
  using interrupt_round_trip [of 5 "[]" 0 1000] by simp

end
